theory Spec2Isabelle
  imports Main
begin

section \<open>Values exchanged with the record store\<close>

text \<open>
  The server (\<^verbatim>\<open>src/src/server.js\<close>, second revision) talks to a hosted relational
  store through a client whose calls resolve to an object \<^verbatim>\<open>{ data, error }\<close>.
  A JavaScript value that may be \<^verbatim>\<open>undefined\<close> is an \<open>option\<close>; a value placed in a
  request payload is a \<open>jval\<close>, where \<open>Time t\<close> stands for the ISO text that
  \<^verbatim>\<open>new Date().toISOString()\<close> produces for the instant \<open>t\<close> (milliseconds since the
  epoch).
\<close>

datatype jval = Undefined | Str string | Time int

type_synonym payload = "(string \<times> jval) list"

definition of_opt :: "string option \<Rightarrow> jval" where
  "of_opt v = (case v of None \<Rightarrow> Undefined | Some s \<Rightarrow> Str s)"

definition keys :: "payload \<Rightarrow> string list" where
  "keys p = map fst p"

record store_error =
  err_code :: string
  err_message :: string

record 'a response =
  data :: "'a option"
  error :: "store_error option"

text \<open>
  A row of the table \<^verbatim>\<open>users\<close> as \<^verbatim>\<open>create-tables.js\<close> declares it: \<^verbatim>\<open>id\<close> (primary
  key, a number here instead of a UUID), \<^verbatim>\<open>google_id\<close> and \<^verbatim>\<open>email\<close> (unique, not null),
  the nullable \<^verbatim>\<open>name\<close>, \<^verbatim>\<open>picture\<close> and \<^verbatim>\<open>last_login\<close>, \<^verbatim>\<open>created_at\<close> and
  \<^verbatim>\<open>is_active\<close>. Timestamps are instants in milliseconds.
\<close>

record user_row =
  row_id :: nat
  google_id :: string
  email :: string
  name :: "string option"
  picture :: "string option"
  created_at :: int
  last_login :: "int option"
  is_active :: "bool option"

text \<open>The in-memory user handed to the caller: the row plus the transient flag.\<close>

record session_user = user_row +
  isNewUser :: bool

text \<open>\<^verbatim>\<open>user.isNewUser = isNewUser\<close>: the fetched or inserted object gains one property.\<close>

definition set_isNewUser :: "user_row \<Rightarrow> bool \<Rightarrow> session_user" where
  "set_isNewUser u b =
     \<lparr>row_id = row_id u, google_id = google_id u, email = email u, name = name u,
      picture = picture u, created_at = created_at u, last_login = last_login u,
      is_active = is_active u, isNewUser = b\<rparr>"

text \<open>What a \<^verbatim>\<open>throw\<close> inside the verify callback can carry.\<close>

datatype js_exn = TypeError | StoreError store_error | OtherError string

text \<open>An awaited call either resolves to its response or rejects.\<close>

datatype 'a settled = Fulfilled 'a | Rejected js_exn

text \<open>The three requests the callback can send, as they appear on the wire.\<close>

datatype store_request =
    Select_single "string option"  \<comment> \<open>\<^verbatim>\<open>.select('*').eq('google_id', v).single()\<close>\<close>
  | Insert_single payload          \<comment> \<open>\<^verbatim>\<open>.insert([p]).select().single()\<close>\<close>
  | Update_eq_id payload nat       \<comment> \<open>\<^verbatim>\<open>.update(p).eq('id', i)\<close>\<close>

text \<open>The payload a request carries (none for the query).\<close>

definition payload_of :: "store_request \<Rightarrow> payload" where
  "payload_of rq =
     (case rq of Select_single v \<Rightarrow> [] | Insert_single p \<Rightarrow> p | Update_eq_id p i \<Rightarrow> p)"

text \<open>
  The store client is an external collaborator, so the callback is modelled over any
  client: three operations on a store state \<open>'s\<close>, each returning how the awaited call
  settled together with the state it leaves.
\<close>

record 's client =
  select_single :: "string option \<Rightarrow> 's \<Rightarrow> user_row response settled \<times> 's"
  insert_single :: "payload \<Rightarrow> 's \<Rightarrow> user_row response settled \<times> 's"
  update_eq_id :: "payload \<Rightarrow> nat \<Rightarrow> 's \<Rightarrow> unit response settled \<times> 's"

section \<open>The OAuth verify callback (Identity Upsert)\<close>

text \<open>
  The profile handed over by the OAuth strategy. \<open>None\<close> is \<^verbatim>\<open>undefined\<close>: the profile
  itself, its \<^verbatim>\<open>emails\<close> or \<^verbatim>\<open>photos\<close> array, or the \<^verbatim>\<open>value\<close> of an entry may be absent.
\<close>

datatype entry = Entry "string option"

fun entry_value :: "entry \<Rightarrow> string option" where
  "entry_value (Entry v) = v"

record profile =
  profile_id :: "string option"
  emails :: "entry list option"
  displayName :: "string option"
  photos :: "entry list option"

text \<open>
  The first four statements of the \<^verbatim>\<open>try\<close> block:
  \<^verbatim>\<open>profile.id\<close>, \<^verbatim>\<open>profile.emails[0].value\<close>, \<^verbatim>\<open>profile.displayName\<close>,
  \<^verbatim>\<open>profile.photos[0]?.value\<close>. Reading a property of \<^verbatim>\<open>undefined\<close> throws a TypeError;
  the optional chaining on the first photo does not.
\<close>

definition read_profile ::
  "profile option \<Rightarrow> js_exn + (string option \<times> string option \<times> string option \<times> string option)"
where
  "read_profile po =
     (case po of
        None \<Rightarrow> Inl TypeError
      | Some p \<Rightarrow>
          (case emails p of
             None \<Rightarrow> Inl TypeError
           | Some [] \<Rightarrow> Inl TypeError
           | Some (e # _) \<Rightarrow>
               (case photos p of
                  None \<Rightarrow> Inl TypeError
                | Some [] \<Rightarrow> Inr (profile_id p, entry_value e, displayName p, None)
                | Some (ph # _) \<Rightarrow>
                    Inr (profile_id p, entry_value e, displayName p, entry_value ph))))"

text \<open>The outcome of the \<^verbatim>\<open>try\<close> block: the thrown value or the user, the requests sent
  so far, and the store state.\<close>

type_synonym 's attempt = "(js_exn + session_user) \<times> store_request list \<times> 's"

text \<open>
  \<^verbatim>\<open>if (!user) { insert ... } else { update ... }\<close> followed by
  \<^verbatim>\<open>user.isNewUser = isNewUser\<close>. The result of the awaited update is discarded.
\<close>

definition upsert_branch ::
  "'s client \<Rightarrow> string option \<Rightarrow> string option \<Rightarrow> string option \<Rightarrow> string option \<Rightarrow>
   int \<Rightarrow> user_row option \<Rightarrow> store_request list \<Rightarrow> 's \<Rightarrow> 's attempt"
where
  "upsert_branch c googleId email' name' picture' now user tr s =
     (case user of
        None \<Rightarrow>
          (let p = [(''google_id'', of_opt googleId), (''email'', of_opt email'),
                    (''name'', of_opt name'), (''picture'', of_opt picture')];
               tr' = tr @ [Insert_single p]
           in case insert_single c p s of
                (Rejected x, s') \<Rightarrow> (Inl x, tr', s')
              | (Fulfilled r, s') \<Rightarrow>
                  (case error r of
                     Some insertError \<Rightarrow> (Inl (StoreError insertError), tr', s')
                   | None \<Rightarrow>
                       (case data r of
                          None \<Rightarrow> (Inl TypeError, tr', s')
                        | Some newUser \<Rightarrow> (Inr (set_isNewUser newUser True), tr', s'))))
      | Some u \<Rightarrow>
          (let p = [(''last_login'', Time now)];
               tr' = tr @ [Update_eq_id p (row_id u)]
           in case update_eq_id c p (row_id u) s of
                (Rejected x, s') \<Rightarrow> (Inl x, tr', s')
              | (Fulfilled r, s') \<Rightarrow> (Inr (set_isNewUser u False), tr', s')))"

text \<open>
  The body of the \<^verbatim>\<open>try\<close> block: read the profile, query by \<^verbatim>\<open>google_id\<close>, rethrow a
  fetch error whose code is not \<^verbatim>\<open>PGRST116\<close>, then insert or update.
\<close>

definition verify_try :: "'s client \<Rightarrow> profile option \<Rightarrow> int \<Rightarrow> 's \<Rightarrow> 's attempt" where
  "verify_try c po now s =
     (case read_profile po of
        Inl x \<Rightarrow> (Inl x, [], s)
      | Inr (googleId, email', name', picture') \<Rightarrow>
          (let tr = [Select_single googleId]
           in case select_single c googleId s of
                (Rejected x, s') \<Rightarrow> (Inl x, tr, s')
              | (Fulfilled r, s') \<Rightarrow>
                  (case error r of
                     Some fetchError \<Rightarrow>
                       if err_code fetchError \<noteq> ''PGRST116''
                       then (Inl (StoreError fetchError), tr, s')
                       else upsert_branch c googleId email' name' picture' now (data r) tr s'
                   | None \<Rightarrow>
                       upsert_branch c googleId email' name' picture' now (data r) tr s')))"

text \<open>The call of \<^verbatim>\<open>done\<close>: \<^verbatim>\<open>done(null, user)\<close> or, from the \<^verbatim>\<open>catch\<close>, \<^verbatim>\<open>done(error, null)\<close>.\<close>

datatype done_call = Done "js_exn option" "session_user option"

record 's outcome =
  called :: done_call
  issued :: "store_request list"
  store_after :: 's

definition verify :: "'s client \<Rightarrow> profile option \<Rightarrow> int \<Rightarrow> 's \<Rightarrow> 's outcome" where
  "verify c po now s =
     (case verify_try c po now s of
        (Inr user, tr, s') \<Rightarrow> \<lparr>called = Done None (Some user), issued = tr, store_after = s'\<rparr>
      | (Inl err, tr, s') \<Rightarrow> \<lparr>called = Done (Some err) None, issued = tr, store_after = s'\<rparr>)"

section \<open>The run of the callback, effect by effect\<close>

text \<open>
  The same callback with what it does in order: the requests it sends, what it logs with
  \<^verbatim>\<open>console.error\<close>, and every call of \<^verbatim>\<open>done\<close>. \<^verbatim>\<open>done\<close> is the caller's callback and is
  taken to return normally. A run ends by returning, or with an exception that no
  \<^verbatim>\<open>catch\<close> took.
\<close>

datatype event = Requested store_request | Console_error js_exn | Called_done done_call

datatype completion = Returned | Uncaught js_exn

text \<open>
  The \<^verbatim>\<open>try\<close> block: its statements up to the user to hand over (\<open>verify_try\<close>), then
  \<^verbatim>\<open>return done(null, user)\<close>. The first component is the exception thrown, if any.
\<close>

definition try_block ::
  "'s client \<Rightarrow> profile option \<Rightarrow> int \<Rightarrow> 's \<Rightarrow> js_exn option \<times> event list \<times> 's"
where
  "try_block c po now s =
     (case verify_try c po now s of
        (Inl x, tr, s') \<Rightarrow> (Some x, map Requested tr, s')
      | (Inr user, tr, s') \<Rightarrow>
          (None, map Requested tr @ [Called_done (Done None (Some user))], s'))"

text \<open>The \<^verbatim>\<open>catch\<close> block: \<^verbatim>\<open>console.error('OAuth error:', error); return done(error, null)\<close>.\<close>

definition catch_block :: "js_exn \<Rightarrow> js_exn option \<times> event list" where
  "catch_block err = (None, [Console_error err, Called_done (Done (Some err) None)])"

record 's callback_run =
  completion :: completion
  events :: "event list"
  store_end :: 's

text \<open>\<^verbatim>\<open>try { ... } catch (error) { ... }\<close> is the whole body of the callback: what the
  \<^verbatim>\<open>try\<close> block throws goes to the \<^verbatim>\<open>catch\<close> block, what the \<^verbatim>\<open>catch\<close> block throws
  leaves the callback.\<close>

definition verify_run :: "'s client \<Rightarrow> profile option \<Rightarrow> int \<Rightarrow> 's \<Rightarrow> 's callback_run" where
  "verify_run c po now s =
     (case try_block c po now s of
        (None, ev, s') \<Rightarrow> \<lparr>completion = Returned, events = ev, store_end = s'\<rparr>
      | (Some x, ev, s') \<Rightarrow>
          (case catch_block x of
             (None, ev') \<Rightarrow> \<lparr>completion = Returned, events = ev @ ev', store_end = s'\<rparr>
           | (Some y, ev') \<Rightarrow> \<lparr>completion = Uncaught y, events = ev @ ev', store_end = s'\<rparr>))"

text \<open>The calls of \<^verbatim>\<open>done\<close> among the events, in order.\<close>

fun done_calls :: "event list \<Rightarrow> done_call list" where
  "done_calls [] = []"
| "done_calls (Called_done d # es) = d # done_calls es"
| "done_calls (e # es) = done_calls es"

section \<open>The hosted store, as the schema declares it\<close>

text \<open>
  A reference client for the table \<^verbatim>\<open>users\<close>, following the constraints of
  \<^verbatim>\<open>create-tables.js\<close> (\<^verbatim>\<open>google_id TEXT UNIQUE NOT NULL\<close>, \<^verbatim>\<open>email TEXT UNIQUE NOT NULL\<close>,
  \<^verbatim>\<open>created_at TIMESTAMP DEFAULT NOW()\<close>, \<^verbatim>\<open>is_active BOOLEAN DEFAULT TRUE\<close>) and the
  behaviour of \<^verbatim>\<open>.single()\<close>, which answers with error code \<^verbatim>\<open>PGRST116\<close> unless exactly
  one row matches. This client never rejects and never loses a request; clients that do
  are covered by the theorems that hold for every client.
\<close>

record db =
  users :: "user_row list"
  next_id :: nat
  db_now :: int

definition no_rows :: store_error where
  "no_rows = \<lparr>err_code = ''PGRST116'',
              err_message = ''JSON object requested, multiple (or no) rows returned''\<rparr>"

definition unique_violation :: store_error where
  "unique_violation = \<lparr>err_code = ''23505'',
              err_message = ''duplicate key value violates unique constraint''\<rparr>"

definition not_null_violation :: store_error where
  "not_null_violation = \<lparr>err_code = ''23502'',
              err_message = ''null value violates not-null constraint''\<rparr>"

definition bad_column :: store_error where
  "bad_column = \<lparr>err_code = ''PGRST204'',
              err_message = ''column or value not accepted for table users''\<rparr>"

definition failed :: "store_error \<Rightarrow> 'a response settled" where
  "failed e = Fulfilled \<lparr>data = None, error = Some e\<rparr>"

text \<open>The filter \<^verbatim>\<open>.eq('google_id', v)\<close> compares with the text of \<open>v\<close>.\<close>

definition eq_text :: "string option \<Rightarrow> string" where
  "eq_text v = (case v of None \<Rightarrow> ''undefined'' | Some s \<Rightarrow> s)"

definition pg_select_single :: "string option \<Rightarrow> db \<Rightarrow> user_row response settled \<times> db" where
  "pg_select_single v d =
     (case filter (\<lambda>u. google_id u = eq_text v) (users d) of
        [u] \<Rightarrow> (Fulfilled \<lparr>data = Some u, error = None\<rparr>, d)
      | _ \<Rightarrow> (failed no_rows, d))"

text \<open>Serialising a payload drops the properties whose value is \<^verbatim>\<open>undefined\<close>.\<close>

definition sent :: "payload \<Rightarrow> payload" where
  "sent p = filter (\<lambda>kv. snd kv \<noteq> Undefined) p"

definition text_col :: "payload \<Rightarrow> string \<Rightarrow> string option" where
  "text_col p k = (case map_of p k of Some (Str s) \<Rightarrow> Some s | _ \<Rightarrow> None)"

definition is_text_entry :: "string \<times> jval \<Rightarrow> bool" where
  "is_text_entry kv =
     (fst kv \<in> set [''google_id'', ''email'', ''name'', ''picture'']
      \<and> (case snd kv of Str _ \<Rightarrow> True | _ \<Rightarrow> False))"

text \<open>
  Insert of one row given by its text columns; the store assigns \<^verbatim>\<open>id\<close>, \<^verbatim>\<open>created_at\<close>
  and \<^verbatim>\<open>is_active\<close>. Other columns in an insert payload are outside this model and are
  answered with an error.
\<close>

definition pg_insert_single :: "payload \<Rightarrow> db \<Rightarrow> user_row response settled \<times> db" where
  "pg_insert_single p d =
     (if \<not> list_all is_text_entry (sent p) then (failed bad_column, d)
      else case (text_col (sent p) ''google_id'', text_col (sent p) ''email'') of
             (Some g, Some e) \<Rightarrow>
               if g \<in> set (map google_id (users d)) \<or> e \<in> set (map email (users d))
               then (failed unique_violation, d)
               else (let r = \<lparr>row_id = next_id d, google_id = g, email = e,
                               name = text_col (sent p) ''name'',
                               picture = text_col (sent p) ''picture'',
                               created_at = db_now d, last_login = None,
                               is_active = Some True\<rparr>
                     in (Fulfilled \<lparr>data = Some r, error = None\<rparr>,
                         d\<lparr>users := users d @ [r], next_id := Suc (next_id d)\<rparr>))
           | _ \<Rightarrow> (failed not_null_violation, d))"

text \<open>Assignment of one payload property to a row; \<open>None\<close> when the store refuses it.\<close>

fun set_column :: "string \<times> jval \<Rightarrow> user_row \<Rightarrow> user_row option" where
  "set_column (k, Undefined) r = Some r"
| "set_column (k, Str s) r =
     (if k = ''google_id'' then Some (r\<lparr>google_id := s\<rparr>)
      else if k = ''email'' then Some (r\<lparr>email := s\<rparr>)
      else if k = ''name'' then Some (r\<lparr>name := Some s\<rparr>)
      else if k = ''picture'' then Some (r\<lparr>picture := Some s\<rparr>)
      else None)"
| "set_column (k, Time t) r =
     (if k = ''last_login'' then Some (r\<lparr>last_login := Some t\<rparr>)
      else if k = ''created_at'' then Some (r\<lparr>created_at := t\<rparr>)
      else None)"

fun set_columns :: "payload \<Rightarrow> user_row \<Rightarrow> user_row option" where
  "set_columns [] r = Some r"
| "set_columns (kv # p) r =
     (case set_column kv r of None \<Rightarrow> None | Some r' \<Rightarrow> set_columns p r')"

fun all_some :: "'a option list \<Rightarrow> 'a list option" where
  "all_some [] = Some []"
| "all_some (x # xs) =
     (case x of None \<Rightarrow> None
      | Some y \<Rightarrow> (case all_some xs of None \<Rightarrow> None | Some ys \<Rightarrow> Some (y # ys)))"

text \<open>Update of the rows whose \<^verbatim>\<open>id\<close> equals \<open>i\<close>; the unique constraints are re-checked.\<close>

definition pg_update_eq_id :: "payload \<Rightarrow> nat \<Rightarrow> db \<Rightarrow> unit response settled \<times> db" where
  "pg_update_eq_id p i d =
     (case all_some (map (\<lambda>r. if row_id r = i then set_columns p r else Some r) (users d)) of
        None \<Rightarrow> (failed bad_column, d)
      | Some us \<Rightarrow>
          if distinct (map google_id us) \<and> distinct (map email us)
          then (Fulfilled \<lparr>data = None, error = None\<rparr>, d\<lparr>users := us\<rparr>)
          else (failed unique_violation, d))"

definition pg_client :: "db client" where
  "pg_client = \<lparr>select_single = pg_select_single, insert_single = pg_insert_single,
                update_eq_id = pg_update_eq_id\<rparr>"


section \<open>Gates and the OAuth callback route\<close>

text \<open>
  What a middleware or handler does with a request: pass it on (\<^verbatim>\<open>next()\<close>), redirect
  (\<^verbatim>\<open>res.redirect(url)\<close>), answer with a text (\<^verbatim>\<open>res.status(n).send(body)\<close>) or answer
  with a JSON object (\<^verbatim>\<open>res.status(n).json(obj)\<close>, the object as its properties).
\<close>

datatype reply = Next | Redirect string | Send nat string | Json nat "(string \<times> string) list"

text \<open>
  Of a request only the attached principal matters here. \<^verbatim>\<open>req.isAuthenticated()\<close> holds
  iff a principal is attached to the session (spec, section 4.2).
\<close>

record http_request =
  req_user :: "session_user option"

definition req_isAuthenticated :: "http_request \<Rightarrow> bool" where
  "req_isAuthenticated req = (req_user req \<noteq> None)"

text \<open>\<^verbatim>\<open>const ADMIN_EMAIL = process.env.ADMIN_EMAIL || 'your-email@gmail.com'\<close>; the
  argument is the environment variable, \<open>None\<close> when unset.\<close>

definition ADMIN_EMAIL :: "string option \<Rightarrow> string" where
  "ADMIN_EMAIL env =
     (case env of
        None \<Rightarrow> ''your-email@gmail.com''
      | Some v \<Rightarrow> if v = [] then ''your-email@gmail.com'' else v)"

definition isAuthenticated :: "http_request \<Rightarrow> reply" where
  "isAuthenticated req = (if req_isAuthenticated req then Next else Redirect ''/'')"

definition isAdmin :: "string option \<Rightarrow> http_request \<Rightarrow> reply" where
  "isAdmin env req =
     (if req_isAuthenticated req
         \<and> (case req_user req of Some u \<Rightarrow> email u = ADMIN_EMAIL env | None \<Rightarrow> False)
      then Next
      else Send 403 ''Access denied. Admin only.'')"

text \<open>
  The strategy library receives the call of \<^verbatim>\<open>done\<close> from the verify callback. Its
  contract (the library is not part of this repository): an error given to \<^verbatim>\<open>done\<close> is an
  error of the request, no error and no user is a failed authentication, no error and a
  user is a success with that user as principal.
\<close>

datatype auth_result = Authenticated session_user | Failed | Errored js_exn

definition strategy_result :: "done_call \<Rightarrow> auth_result" where
  "strategy_result d =
     (case d of
        Done (Some err) user \<Rightarrow> Errored err
      | Done None None \<Rightarrow> Failed
      | Done None (Some user) \<Rightarrow> Authenticated user)"

text \<open>
  \<^verbatim>\<open>passport.authenticate('google', { failureRedirect: '/' })\<close> in front of the callback
  handler: on success the middleware attaches the principal and runs the handler, on a
  failed authentication it redirects to \<^verbatim>\<open>failureRedirect\<close>, and an error it passes on
  with \<^verbatim>\<open>next(err)\<close>, which reaches the error handler of the application.
\<close>

definition passport_authenticate ::
  "string \<Rightarrow> auth_result \<Rightarrow> (session_user \<Rightarrow> reply) \<Rightarrow> (js_exn \<Rightarrow> reply) \<Rightarrow> reply"
where
  "passport_authenticate failureRedirect res handler next_err =
     (case res of
        Failed \<Rightarrow> Redirect failureRedirect
      | Errored err \<Rightarrow> next_err err
      | Authenticated u \<Rightarrow> handler u)"

text \<open>The handler behind it, on the principal \<^verbatim>\<open>req.user\<close> the middleware attached.\<close>

definition callback_handler :: "session_user \<Rightarrow> reply" where
  "callback_handler user =
     (if isNewUser user then Redirect ''/dashboard?welcome=true''
      else Redirect ''/dashboard'')"

text \<open>The error handler registered last:
  \<^verbatim>\<open>res.status(500).json({ error: 'Internal server error' })\<close>.\<close>

definition error_handler :: "js_exn \<Rightarrow> reply" where
  "error_handler err = Json 500 [(''error'', ''Internal server error'')]"

definition auth_google_callback :: "auth_result \<Rightarrow> reply" where
  "auth_google_callback res = passport_authenticate ''/'' res callback_handler error_handler"

text \<open>The route \<^verbatim>\<open>GET /auth/google/callback\<close> for a request on which the strategy runs the
  verify callback.\<close>

definition oauth_callback :: "'s client \<Rightarrow> profile option \<Rightarrow> int \<Rightarrow> 's \<Rightarrow> reply" where
  "oauth_callback c po now s = auth_google_callback (strategy_result (called (verify c po now s)))"

section \<open>Admin statistics\<close>

record stats =
  totalUsers :: nat
  activeUsers :: nat
  newToday :: nat
  newThisWeek :: nat

definition day_ms :: int where
  "day_ms = 86400000"

definition hour_ms :: int where
  "hour_ms = 3600000"

text \<open>
  The time zone of the server, as the language defines local time: the offset
  \<open>LocalTZA(t, true)\<close> of local time from UTC at the UTC instant \<open>t\<close>, and the offset
  \<open>LocalTZA(t, false)\<close> at the local time value \<open>t\<close>; \<open>LocalTime(t) = t + LocalTZA(t, true)\<close>
  and \<open>UTC(t) = t - LocalTZA(t, false)\<close>. The zone is a parameter: its offsets may change
  with daylight saving time.
\<close>

record zone =
  tza_of_utc :: "int \<Rightarrow> int"
  tza_of_local :: "int \<Rightarrow> int"

definition LocalTime :: "zone \<Rightarrow> int \<Rightarrow> int" where
  "LocalTime z t = t + tza_of_utc z t"

definition UTC :: "zone \<Rightarrow> int \<Rightarrow> int" where
  "UTC z t = t - tza_of_local z t"

text \<open>
  \<^verbatim>\<open>new Date(now.getFullYear(), now.getMonth(), now.getDate())\<close>: the local time of \<open>now\<close>
  with its time within the day set to zero, read back as a local time. (Years before 100
  are read differently by this constructor; the clock is taken to be later than that.)
\<close>

definition local_midnight :: "zone \<Rightarrow> int \<Rightarrow> int" where
  "local_midnight z now = UTC z (LocalTime z now - LocalTime z now mod day_ms)"

text \<open>
  \<^verbatim>\<open>weekAgo = new Date(today); weekAgo.setDate(weekAgo.getDate() - 7)\<close>: the local time of
  \<open>today\<close> moved back by seven calendar days at the same time of day, read back as a
  local time.
\<close>

definition week_ago :: "zone \<Rightarrow> int \<Rightarrow> int" where
  "week_ago z today = UTC z (LocalTime z today - 7 * day_ms)"

text \<open>The statistics of \<^verbatim>\<open>GET /admin\<close>; \<open>created_at u\<close> is the instant
  \<^verbatim>\<open>new Date(u.created_at)\<close>.\<close>

definition admin_stats :: "zone \<Rightarrow> int \<Rightarrow> user_row list \<Rightarrow> stats" where
  "admin_stats z now us =
     (let today = local_midnight z now;
          weekAgo = week_ago z today
      in \<lparr>totalUsers = length us,
          activeUsers = length (filter (\<lambda>u. is_active u = Some True) us),
          newToday = length (filter (\<lambda>u. created_at u \<ge> today) us),
          newThisWeek = length (filter (\<lambda>u. created_at u \<ge> weekAgo) us)\<rparr>)"

text \<open>
  What the example of three users needs of the zone at the instant \<open>now\<close>: local midnight
  today is not after \<open>now\<close> and less than two days before it, and the local midnight seven
  calendar days earlier lies six to eight days before local midnight today.
\<close>

definition plausible_clock :: "zone \<Rightarrow> int \<Rightarrow> bool" where
  "plausible_clock z now =
     (local_midnight z now \<le> now \<and> now < local_midnight z now + 2 * day_ms \<and>
      local_midnight z now - 8 * day_ms \<le> week_ago z (local_midnight z now) \<and>
      week_ago z (local_midnight z now) \<le> local_midnight z now - 6 * day_ms)"

text \<open>A zone with the fixed offset \<open>tz\<close>, and New York around the end of daylight saving
  time on 2024-11-03 (06:00 UTC, 02:00 local time): four hours behind UTC before it, five
  hours after.\<close>

definition fixed_zone :: "int \<Rightarrow> zone" where
  "fixed_zone tz = \<lparr>tza_of_utc = (\<lambda>t. tz), tza_of_local = (\<lambda>t. tz)\<rparr>"

definition new_york_autumn_2024 :: zone where
  "new_york_autumn_2024 =
     \<lparr>tza_of_utc = (\<lambda>t. if t < 1730613600000 then - 4 * hour_ms else - 5 * hour_ms),
      tza_of_local = (\<lambda>t. if t < 1730599200000 then - 4 * hour_ms else - 5 * hour_ms)\<rparr>"

section \<open>Schema provisioning scripts\<close>

text \<open>
  The statements the operator scripts send, with their guards: \<^verbatim>\<open>DROP TABLE [IF EXISTS]
  t [CASCADE]\<close>, \<^verbatim>\<open>CREATE TABLE [IF NOT EXISTS] t (columns)\<close>, \<^verbatim>\<open>CREATE INDEX [IF NOT
  EXISTS] i ON t(columns)\<close> and \<^verbatim>\<open>ALTER TABLE t ADD COLUMN [IF NOT EXISTS] c, ...\<close>. The
  first flag of each statement says whether the guard is written. Of a column only its
  name is kept.
\<close>

datatype ddl =
    Drop_table bool string bool
  | Create_table bool string "string list"
  | Create_index bool string string "string list"
  | Add_columns string "(bool \<times> string) list"

fun guarded :: "ddl \<Rightarrow> bool" where
  "guarded (Drop_table if_exists t cascade) = if_exists"
| "guarded (Create_table if_not_exists t cols) = if_not_exists"
| "guarded (Create_index if_not_exists i t cols) = if_not_exists"
| "guarded (Add_columns t cs) = list_all fst cs"

definition users_columns :: "string list" where
  "users_columns = [''id'', ''google_id'', ''email'', ''name'', ''picture'', ''created_at'',
                    ''last_login'', ''is_active'']"

definition sessions_columns :: "string list" where
  "sessions_columns = [''id'', ''user_id'', ''token'', ''expires_at'', ''created_at'']"

text \<open>\<^verbatim>\<open>create-tables.js\<close>, the batch of \<^verbatim>\<open>createTables\<close>.\<close>

definition createTables_sql :: "ddl list" where
  "createTables_sql =
     [Create_table True ''users'' users_columns,
      Create_table True ''sessions'' sessions_columns]"

text \<open>\<^verbatim>\<open>setup-supabase-tables.js\<close>, the batch of \<^verbatim>\<open>setupTables\<close>.\<close>

definition setupTables_sql :: "ddl list" where
  "setupTables_sql =
     [Drop_table True ''sessions'' True,
      Drop_table True ''users'' True,
      Create_table False ''users'' users_columns,
      Create_table False ''sessions'' sessions_columns,
      Create_index False ''idx_users_google_id'' ''users'' [''google_id''],
      Create_index False ''idx_users_email'' ''users'' [''email''],
      Create_index False ''idx_sessions_user_id'' ''sessions'' [''user_id'']]"

text \<open>The batch of \<^verbatim>\<open>addOAuthTokenColumns\<close>.\<close>

definition addOAuthTokenColumns_sql :: "ddl list" where
  "addOAuthTokenColumns_sql =
     [Add_columns ''users''
        [(True, ''access_token''), (True, ''refresh_token''), (True, ''token_expiry''),
         (True, ''gmail_watch_enabled''), (True, ''gmail_watch_expiration''),
         (True, ''gmail_history_id'')]]"

text \<open>
  The catalog of the store: each table with its columns and its number of rows, each index
  with the table and columns it is on. Names are keys, so the catalog cannot hold two
  tables or two indexes of one name; creating one that exists is an error unless guarded.
\<close>

record catalog =
  tables :: "string \<rightharpoonup> string list \<times> nat"
  indexes :: "string \<rightharpoonup> string \<times> string list"

datatype ddl_error = Already_exists string | Does_not_exist string

fun add_columns :: "(bool \<times> string) list \<Rightarrow> string list \<Rightarrow> ddl_error + string list" where
  "add_columns [] cols = Inr cols"
| "add_columns ((if_not_exists, col) # cs) cols =
     (if col \<in> set cols
      then (if if_not_exists then add_columns cs cols else Inl (Already_exists col))
      else add_columns cs (cols @ [col]))"

text \<open>Dropping a table drops the indexes on it.\<close>

definition drop_indexes_on :: "string \<Rightarrow> (string \<rightharpoonup> string \<times> string list) \<Rightarrow>
    (string \<rightharpoonup> string \<times> string list)" where
  "drop_indexes_on t ix =
     (\<lambda>i. case ix i of None \<Rightarrow> None | Some e \<Rightarrow> if fst e = t then None else Some e)"

fun exec_ddl :: "ddl \<Rightarrow> catalog \<Rightarrow> ddl_error + catalog" where
  "exec_ddl (Drop_table if_exists t cascade) c =
     (case tables c t of
        None \<Rightarrow> if if_exists then Inr c else Inl (Does_not_exist t)
      | Some _ \<Rightarrow>
          Inr (c\<lparr>tables := (tables c)(t := None),
                 indexes := drop_indexes_on t (indexes c)\<rparr>))"
| "exec_ddl (Create_table if_not_exists t cols) c =
     (case tables c t of
        Some _ \<Rightarrow> if if_not_exists then Inr c else Inl (Already_exists t)
      | None \<Rightarrow> Inr (c\<lparr>tables := (tables c)(t \<mapsto> (cols, 0))\<rparr>))"
| "exec_ddl (Create_index if_not_exists i t cols) c =
     (case tables c t of
        None \<Rightarrow> Inl (Does_not_exist t)
      | Some _ \<Rightarrow>
          (case indexes c i of
             Some _ \<Rightarrow> if if_not_exists then Inr c else Inl (Already_exists i)
           | None \<Rightarrow> Inr (c\<lparr>indexes := (indexes c)(i \<mapsto> (t, cols))\<rparr>)))"
| "exec_ddl (Add_columns t cs) c =
     (case tables c t of
        None \<Rightarrow> Inl (Does_not_exist t)
      | Some (cols, n) \<Rightarrow>
          (case add_columns cs cols of
             Inl e \<Rightarrow> Inl e
           | Inr cols' \<Rightarrow> Inr (c\<lparr>tables := (tables c)(t \<mapsto> (cols', n))\<rparr>)))"

text \<open>A batch runs its statements in order and stops at the first error.\<close>

fun run :: "ddl list \<Rightarrow> catalog \<Rightarrow> ddl_error + catalog" where
  "run [] c = Inr c"
| "run (st # sts) c = (case exec_ddl st c of Inl e \<Rightarrow> Inl e | Inr c' \<Rightarrow> run sts c')"

text \<open>The number of rows a table holds.\<close>

definition row_count :: "catalog \<Rightarrow> string \<Rightarrow> nat option" where
  "row_count c t = map_option snd (tables c t)"

definition empty_catalog :: catalog where
  "empty_catalog = \<lparr>tables = Map.empty, indexes = Map.empty\<rparr>"

text \<open>The catalog after \<^verbatim>\<open>setupTables\<close> has run and five users have signed in.\<close>

definition populated_catalog :: catalog where
  "populated_catalog =
     \<lparr>tables = [''users'' \<mapsto> (users_columns, 5), ''sessions'' \<mapsto> (sessions_columns, 0)],
      indexes = [''idx_users_google_id'' \<mapsto> (''users'', [''google_id'']),
                 ''idx_users_email'' \<mapsto> (''users'', [''email'']),
                 ''idx_sessions_user_id'' \<mapsto> (''sessions'', [''user_id''])]\<rparr>"

text \<open>In a catalog of the store every index is on a table that exists.\<close>

definition wf_catalog :: "catalog \<Rightarrow> bool" where
  "wf_catalog c = (\<forall>i e. indexes c i = Some e \<longrightarrow> tables c (fst e) \<noteq> None)"

text \<open>\<^verbatim>\<open>setupTables\<close> in two parts: the catalog once both tables are dropped, and the five
  unguarded \<^verbatim>\<open>CREATE\<close> statements with the catalog they produce.\<close>

definition after_drops :: "catalog \<Rightarrow> catalog" where
  "after_drops c =
     c\<lparr>tables := (tables c)(''sessions'' := None, ''users'' := None),
       indexes := drop_indexes_on ''users'' (drop_indexes_on ''sessions'' (indexes c))\<rparr>"

definition creates :: "ddl list" where
  "creates =
     [Create_table False ''users'' users_columns,
      Create_table False ''sessions'' sessions_columns,
      Create_index False ''idx_users_google_id'' ''users'' [''google_id''],
      Create_index False ''idx_users_email'' ''users'' [''email''],
      Create_index False ''idx_sessions_user_id'' ''sessions'' [''user_id'']]"

definition created_on :: "catalog \<Rightarrow> catalog" where
  "created_on k =
     k\<lparr>tables := (tables k)(''users'' \<mapsto> (users_columns, 0),
                             ''sessions'' \<mapsto> (sessions_columns, 0)),
       indexes := (indexes k)(''idx_users_google_id'' \<mapsto> (''users'', [''google_id'']),
                               ''idx_users_email'' \<mapsto> (''users'', [''email'']),
                               ''idx_sessions_user_id'' \<mapsto> (''sessions'', [''user_id'']))\<rparr>"

section \<open>Concrete inputs\<close>

text \<open>A store holding one user, an empty store, and the profiles of that user and of a
  second account that presents the same email address.\<close>

definition row_g0 :: user_row where
  "row_g0 = \<lparr>row_id = 0, google_id = ''g-0'', email = ''a@x.com'', name = Some ''A'',
              picture = None, created_at = 0, last_login = None, is_active = Some True\<rparr>"

definition one_user_db :: db where
  "one_user_db = \<lparr>users = [row_g0], next_id = 1, db_now = 5\<rparr>"

definition empty_db :: db where
  "empty_db = \<lparr>users = [], next_id = 0, db_now = 5\<rparr>"

definition profile_g0 :: profile where
  "profile_g0 = \<lparr>profile_id = Some ''g-0'', emails = Some [Entry (Some ''a@x.com'')],
                 displayName = Some ''A'', photos = Some []\<rparr>"

definition profile_g1 :: profile where
  "profile_g1 = \<lparr>profile_id = Some ''g-1'', emails = Some [Entry (Some ''a@x.com'')],
                 displayName = Some ''A'', photos = Some []\<rparr>"

text \<open>The row the store creates for the first sign-in of \<^verbatim>\<open>g-1\<close> into the empty store.\<close>

definition row_g1 :: user_row where
  "row_g1 = \<lparr>row_id = 0, google_id = ''g-1'', email = ''a@x.com'', name = Some ''A'',
              picture = None, created_at = 5, last_login = None, is_active = Some True\<rparr>"

text \<open>A user row created at the instant \<open>t\<close>.\<close>

definition created :: "int \<Rightarrow> user_row" where
  "created t = row_g0\<lparr>created_at := t\<rparr>"

text \<open>
  Clients that fail: the error object the client returns when the store cannot be
  reached, a client whose update call resolves to that error and changes nothing, one
  whose query does, and one whose query rejects instead of resolving.
\<close>

definition unreachable :: store_error where
  "unreachable = \<lparr>err_code = [], err_message = ''TypeError: fetch failed''\<rparr>"

definition pg_client_update_down :: "db client" where
  "pg_client_update_down =
     pg_client\<lparr>update_eq_id := (\<lambda>p i d. (failed unreachable, d))\<rparr>"

definition pg_client_select_down :: "db client" where
  "pg_client_select_down =
     pg_client\<lparr>select_single := (\<lambda>v d. (failed unreachable, d))\<rparr>"

definition pg_client_select_rejects :: "db client" where
  "pg_client_select_rejects =
     pg_client\<lparr>select_single := (\<lambda>v d. (Rejected (OtherError ''socket hang up''), d))\<rparr>"

text \<open>Profiles of the user \<^verbatim>\<open>g-0\<close> without a \<^verbatim>\<open>photos\<close> array and with an empty \<^verbatim>\<open>emails\<close>
  array, and the profile of a third account with an address and a photo of its own.\<close>

definition profile_g0_no_photos :: profile where
  "profile_g0_no_photos = \<lparr>profile_id = Some ''g-0'', emails = Some [Entry (Some ''a@x.com'')],
                 displayName = Some ''A'', photos = None\<rparr>"


definition profile_g2 :: profile where
  "profile_g2 = \<lparr>profile_id = Some ''g-2'', emails = Some [Entry (Some ''b@x.com'')],
                 displayName = None, photos = Some [Entry (Some ''https://p.example/2.png'')]\<rparr>"

section \<open>Facts about the reference store\<close>

lemma of_opt_Some: "of_opt (Some x) = Str x"
  by (simp add: of_opt_def)

lemma isNewUser_set_isNewUser: "isNewUser (set_isNewUser u b) = b"
  by (simp add: set_isNewUser_def)



lemma filter_key_absent: "k \<notin> f ` set xs \<Longrightarrow> filter (\<lambda>x. f x = k) xs = []"
  by (auto simp: filter_empty_conv)


lemma pg_select_absent:
  "g \<notin> google_id ` set (users d) \<Longrightarrow> pg_select_single (Some g) d = (failed no_rows, d)"
  by (simp add: pg_select_single_def eq_text_def filter_key_absent)






lemma sent_insert_payload:
  "sent [(''google_id'', Str g), (''email'', Str e), (''name'', of_opt n), (''picture'', of_opt pic)]
   = [(''google_id'', Str g), (''email'', Str e)]
     @ (case n of None \<Rightarrow> [] | Some s \<Rightarrow> [(''name'', Str s)])
     @ (case pic of None \<Rightarrow> [] | Some s \<Rightarrow> [(''picture'', Str s)])"
  by (simp add: sent_def of_opt_def split: option.splits)

lemma pg_insert_fresh:
  "g \<notin> google_id ` set (users d) \<Longrightarrow> e \<notin> email ` set (users d) \<Longrightarrow>
   pg_insert_single
     [(''google_id'', Str g), (''email'', Str e), (''name'', of_opt n), (''picture'', of_opt pic)] d =
    (Fulfilled \<lparr>data = Some \<lparr>row_id = next_id d, google_id = g, email = e, name = n,
          picture = pic, created_at = db_now d, last_login = None, is_active = Some True\<rparr>,
        error = None\<rparr>,
     d\<lparr>users := users d @ [\<lparr>row_id = next_id d, google_id = g, email = e, name = n,
          picture = pic, created_at = db_now d, last_login = None, is_active = Some True\<rparr>],
       next_id := Suc (next_id d)\<rparr>)"
  unfolding pg_insert_single_def sent_insert_payload
  by (simp add: is_text_entry_def text_col_def Let_def split: option.splits)

lemma read_profile_ok:
  "emails p = Some (e # es) \<Longrightarrow> photos p = Some ps \<Longrightarrow>
   read_profile (Some p) =
     Inr (profile_id p, entry_value e, displayName p,
          (case ps of [] \<Rightarrow> None | ph # _ \<Rightarrow> entry_value ph))"
  by (cases ps) (simp_all add: read_profile_def)


section \<open>Identity Upsert on the reference store\<close>

text \<open>
  C1 (amended). For every identity assertion that carries a subject id, an email entry
  and a \<^verbatim>\<open>photos\<close> array (which may be empty), whose subject id has no User record and
  whose email is held by no User record, the upsert on the reference store sends one
  query and one insert carrying exactly the subject id, email, display name and avatar
  URL, the store gains exactly that one row (with the id, creation time and active flag
  the store assigns), and \<^verbatim>\<open>done\<close> receives that row with \<open>isNewUser = True\<close>.
\<close>

theorem first_login_creates_user:
  assumes "profile_id p = Some g" and "emails p = Some (Entry (Some e) # es)"
    and "photos p = Some ps"
    and "g \<notin> google_id ` set (users d)" and "e \<notin> email ` set (users d)"
  shows "verify pg_client (Some p) now d =
     \<lparr>called = Done None (Some
        \<lparr>row_id = next_id d, google_id = g, email = e, name = displayName p,
         picture = (case ps of [] \<Rightarrow> None | ph # _ \<Rightarrow> entry_value ph),
         created_at = db_now d, last_login = None, is_active = Some True,
         isNewUser = True\<rparr>),
      issued = [Select_single (Some g),
                Insert_single
                  [(''google_id'', Str g), (''email'', Str e),
                   (''name'', of_opt (displayName p)),
                   (''picture'',
                    of_opt (case ps of [] \<Rightarrow> None | ph # _ \<Rightarrow> entry_value ph))]],
      store_after =
        d\<lparr>users := users d @
             [\<lparr>row_id = next_id d, google_id = g, email = e, name = displayName p,
               picture = (case ps of [] \<Rightarrow> None | ph # _ \<Rightarrow> entry_value ph),
               created_at = db_now d, last_login = None, is_active = Some True\<rparr>],
           next_id := Suc (next_id d)\<rparr>\<rparr>"
  using assms
  by (simp add: verify_def verify_try_def upsert_branch_def read_profile_ok pg_client_def
      pg_select_absent pg_insert_fresh failed_def no_rows_def Let_def of_opt_Some
      set_isNewUser_def)

theorem first_login_creates_user_witness:
  "''g-1'' \<notin> google_id ` set (users empty_db) \<and>
   ''a@x.com'' \<notin> email ` set (users empty_db) \<and>
   verify pg_client (Some profile_g1) 1000 empty_db =
     \<lparr>called = Done None (Some
        \<lparr>row_id = 0, google_id = ''g-1'', email = ''a@x.com'', name = Some ''A'',
         picture = None, created_at = 5, last_login = None, is_active = Some True,
         isNewUser = True\<rparr>),
      issued = [Select_single (Some ''g-1''),
                Insert_single [(''google_id'', Str ''g-1''), (''email'', Str ''a@x.com''),
                               (''name'', Str ''A''), (''picture'', Undefined)]],
      store_after = \<lparr>users = [row_g1], next_id = 1, db_now = 5\<rparr>\<rparr> \<and>
   ''g-2'' \<notin> google_id ` set (users one_user_db) \<and>
   ''b@x.com'' \<notin> email ` set (users one_user_db) \<and>
   verify pg_client (Some profile_g2) 1000 one_user_db =
     \<lparr>called = Done None (Some
        \<lparr>row_id = 1, google_id = ''g-2'', email = ''b@x.com'', name = None,
         picture = Some ''https://p.example/2.png'', created_at = 5, last_login = None,
         is_active = Some True, isNewUser = True\<rparr>),
      issued = [Select_single (Some ''g-2''),
                Insert_single [(''google_id'', Str ''g-2''), (''email'', Str ''b@x.com''),
                               (''name'', Undefined),
                               (''picture'', Str ''https://p.example/2.png'')]],
      store_after =
        \<lparr>users = [row_g0,
                   \<lparr>row_id = 1, google_id = ''g-2'', email = ''b@x.com'', name = None,
                    picture = Some ''https://p.example/2.png'', created_at = 5,
                    last_login = None, is_active = Some True\<rparr>],
         next_id = 2, db_now = 5\<rparr>\<rparr>"
  using
    first_login_creates_user [of profile_g1 "''g-1''" "''a@x.com''" "[]" "[]" empty_db 1000]
    first_login_creates_user [of profile_g2 "''g-2''" "''b@x.com''" "[]"
      "[Entry (Some ''https://p.example/2.png'')]" one_user_db 1000]
  by (simp add: profile_g1_def profile_g2_def empty_db_def one_user_db_def row_g0_def
      row_g1_def of_opt_def)

text \<open>
  C1 as stated fails when another User already holds the email: the subject id
  \<^verbatim>\<open>g-1\<close> has no record, yet the unique constraint on \<^verbatim>\<open>email\<close> rejects the insert, no
  row is created and the callback reports the error instead of a new user.
\<close>

theorem first_login_taken_email_counterexample:
  "''g-1'' \<notin> google_id ` set (users one_user_db) \<and>
   called (verify pg_client (Some profile_g1) 1000 one_user_db)
     = Done (Some (StoreError unique_violation)) None \<and>
   store_after (verify pg_client (Some profile_g1) 1000 one_user_db) = one_user_db"
  by (simp add: verify_def verify_try_def upsert_branch_def read_profile_def pg_client_def
      pg_select_single_def pg_insert_single_def one_user_db_def row_g0_def profile_g1_def
      failed_def no_rows_def eq_text_def sent_def of_opt_def is_text_entry_def text_col_def)




text \<open>
  C3, at the failing input. The user \<^verbatim>\<open>g-0\<close> exists and the update call answers with a
  communication error: the callback has discarded the result of the update, so it still
  calls \<^verbatim>\<open>done(null, user)\<close>, although \<^verbatim>\<open>last_login\<close> was not written.
\<close>

theorem update_error_is_ignored:
  "verify pg_client_update_down (Some profile_g0) 1000 one_user_db =
    \<lparr>called = Done None (Some (set_isNewUser row_g0 False)),
     issued = [Select_single (Some ''g-0''), Update_eq_id [(''last_login'', Time 1000)] 0],
     store_after = one_user_db\<rparr>"
  by (simp add: verify_def verify_try_def upsert_branch_def read_profile_def pg_client_def
      pg_client_update_down_def pg_select_single_def one_user_db_def row_g0_def
      profile_g0_def failed_def eq_text_def)

section \<open>The verify callback over any store client\<close>

text \<open>Every run sends nothing, or the query alone, or the query followed by one insert
  or one update; the flag on the returned user tells which.\<close>

lemma verify_try_shape:
  "verify_try c po now s = (res, tr, s') \<Longrightarrow>
     (tr = [] \<and> res = Inl TypeError \<and> s' = s)
   \<or> (\<exists>g x. tr = [Select_single g] \<and> res = Inl x)
   \<or> (\<exists>g e n pic.
         tr = [Select_single g,
               Insert_single [(''google_id'', of_opt g), (''email'', of_opt e),
                              (''name'', of_opt n), (''picture'', of_opt pic)]]
         \<and> (\<forall>u. res = Inr u \<longrightarrow> isNewUser u))
   \<or> (\<exists>g i. tr = [Select_single g, Update_eq_id [(''last_login'', Time now)] i]
         \<and> (\<forall>u. res = Inr u \<longrightarrow> \<not> isNewUser u))"
  by (auto simp: verify_try_def upsert_branch_def read_profile_def set_isNewUser_def Let_def
      split: option.splits prod.splits settled.splits sum.splits list.splits if_splits)

lemma verify_shape:
  "(verify c po now s = \<lparr>called = Done (Some TypeError) None, issued = [], store_after = s\<rparr>)
   \<or> (\<exists>g x. issued (verify c po now s) = [Select_single g]
         \<and> called (verify c po now s) = Done (Some x) None)
   \<or> (\<exists>g e n pic.
         issued (verify c po now s) =
           [Select_single g,
            Insert_single [(''google_id'', of_opt g), (''email'', of_opt e),
                           (''name'', of_opt n), (''picture'', of_opt pic)]]
         \<and> ((\<exists>x. called (verify c po now s) = Done (Some x) None)
            \<or> (\<exists>u. called (verify c po now s) = Done None (Some u) \<and> isNewUser u)))
   \<or> (\<exists>g i.
         issued (verify c po now s) =
           [Select_single g, Update_eq_id [(''last_login'', Time now)] i]
         \<and> ((\<exists>x. called (verify c po now s) = Done (Some x) None)
            \<or> (\<exists>u. called (verify c po now s) = Done None (Some u) \<and> \<not> isNewUser u)))"
proof -
  obtain res tr s' where v: "verify_try c po now s = (res, tr, s')"
    by (cases "verify_try c po now s") auto
  from verify_try_shape [OF v] show ?thesis
    using v by (cases res) (auto simp: verify_def)
qed

text \<open>A first sign-in on the reference store, evaluated.\<close>

lemma first_login_example:
  "verify pg_client (Some profile_g1) 1000 empty_db =
     \<lparr>called = Done None (Some (set_isNewUser row_g1 True)),
      issued = [Select_single (Some ''g-1''),
                Insert_single [(''google_id'', Str ''g-1''), (''email'', Str ''a@x.com''),
                               (''name'', Str ''A''), (''picture'', Undefined)]],
      store_after = \<lparr>users = [row_g1], next_id = 1, db_now = 5\<rparr>\<rparr>"
  by (simp add: verify_def verify_try_def upsert_branch_def read_profile_def pg_client_def
      pg_select_single_def pg_insert_single_def empty_db_def row_g1_def profile_g1_def
      failed_def no_rows_def eq_text_def sent_def of_opt_def is_text_entry_def text_col_def
      Let_def)

text \<open>
  C5. In every run of the callback, over every client, no request carries a property
  \<^verbatim>\<open>isNewUser\<close>: an insert payload has exactly the keys \<^verbatim>\<open>google_id\<close>, \<^verbatim>\<open>email\<close>, \<^verbatim>\<open>name\<close>,
  \<^verbatim>\<open>picture\<close>, an update payload exactly \<^verbatim>\<open>last_login\<close>. The flag exists only on the user
  handed to \<^verbatim>\<open>done\<close>, where it is true iff this run sent the insert.
\<close>

theorem isNewUser_never_sent:
  "(\<forall>rq \<in> set (issued (verify c po now s)). ''isNewUser'' \<notin> set (keys (payload_of rq))) \<and>
   (\<forall>p. Insert_single p \<in> set (issued (verify c po now s)) \<longrightarrow>
        keys p = [''google_id'', ''email'', ''name'', ''picture'']) \<and>
   (\<forall>p i. Update_eq_id p i \<in> set (issued (verify c po now s)) \<longrightarrow>
        keys p = [''last_login'']) \<and>
   (\<forall>u. called (verify c po now s) = Done None (Some u) \<longrightarrow>
        isNewUser u = (\<exists>p. Insert_single p \<in> set (issued (verify c po now s))))"
  using verify_shape [of c po now s]
  by (elim disjE exE conjE) (auto simp: keys_def payload_of_def)

theorem isNewUser_never_sent_witness:
  "''isNewUser'' \<notin> set (keys (payload_of (Select_single (Some ''g-1'')))) \<and>
   ''isNewUser'' \<notin> set (keys [(''google_id'', Str ''g-1''), (''email'', Str ''a@x.com''),
                               (''name'', Str ''A''), (''picture'', Undefined)]) \<and>
   keys [(''google_id'', Str ''g-1''), (''email'', Str ''a@x.com''),
         (''name'', Str ''A''), (''picture'', Undefined)]
     = [''google_id'', ''email'', ''name'', ''picture''] \<and>
   isNewUser (set_isNewUser row_g1 True)"
  using isNewUser_never_sent [of pg_client "Some profile_g1" 1000 empty_db]
  by (simp add: first_login_example payload_of_def isNewUser_set_isNewUser)

text \<open>
  C6. When the initial query rejects, or resolves with an error whose code is not
  \<^verbatim>\<open>PGRST116\<close>, the callback calls \<^verbatim>\<open>done(error, null)\<close> with that error and has sent the
  query once and nothing else (no retry, no insert, no update). When the query resolves
  with the \<^verbatim>\<open>PGRST116\<close> error and no row, the callback goes on to send the insert.
\<close>

theorem fetch_error_propagates:
  "read_profile po = Inr (g, e, n, pic) \<Longrightarrow> select_single c g s = (res, s1) \<Longrightarrow>
   (\<forall>x. res = Rejected x \<longrightarrow>
      verify c po now s =
        \<lparr>called = Done (Some x) None, issued = [Select_single g], store_after = s1\<rparr>) \<and>
   (\<forall>r fe. res = Fulfilled r \<and> error r = Some fe \<and> err_code fe \<noteq> ''PGRST116'' \<longrightarrow>
      verify c po now s =
        \<lparr>called = Done (Some (StoreError fe)) None, issued = [Select_single g],
         store_after = s1\<rparr>) \<and>
   (\<forall>r fe. res = Fulfilled r \<and> error r = Some fe \<and> err_code fe = ''PGRST116''
        \<and> data r = None \<longrightarrow>
      issued (verify c po now s) =
        [Select_single g,
         Insert_single [(''google_id'', of_opt g), (''email'', of_opt e),
                        (''name'', of_opt n), (''picture'', of_opt pic)]])"
  by (auto simp: verify_def verify_try_def upsert_branch_def Let_def
      split: option.splits prod.splits settled.splits sum.splits)

theorem fetch_error_propagates_witness:
  "verify pg_client_select_rejects (Some profile_g0) 1000 one_user_db =
     \<lparr>called = Done (Some (OtherError ''socket hang up'')) None,
      issued = [Select_single (Some ''g-0'')], store_after = one_user_db\<rparr> \<and>
   verify pg_client_select_down (Some profile_g0) 1000 one_user_db =
     \<lparr>called = Done (Some (StoreError unreachable)) None,
      issued = [Select_single (Some ''g-0'')], store_after = one_user_db\<rparr> \<and>
   issued (verify pg_client (Some profile_g1) 1000 empty_db) =
     [Select_single (Some ''g-1''),
      Insert_single [(''google_id'', Str ''g-1''), (''email'', Str ''a@x.com''),
                     (''name'', Str ''A''), (''picture'', Undefined)]]"
  using
    fetch_error_propagates [where po = "Some profile_g0" and g = "Some ''g-0''"
      and e = "Some ''a@x.com''" and n = "Some ''A''" and pic = None
      and c = pg_client_select_rejects and s = one_user_db
      and res = "Rejected (OtherError ''socket hang up'')" and ?s1.0 = one_user_db
      and now = 1000]
    fetch_error_propagates [where po = "Some profile_g0" and g = "Some ''g-0''"
      and e = "Some ''a@x.com''" and n = "Some ''A''" and pic = None
      and c = pg_client_select_down and s = one_user_db
      and res = "Fulfilled \<lparr>data = None, error = Some unreachable\<rparr>"
      and ?s1.0 = one_user_db and now = 1000]
    fetch_error_propagates [where po = "Some profile_g1" and g = "Some ''g-1''"
      and e = "Some ''a@x.com''" and n = "Some ''A''" and pic = None
      and c = pg_client and s = empty_db
      and res = "Fulfilled \<lparr>data = None, error = Some no_rows\<rparr>" and ?s1.0 = empty_db
      and now = 1000]
  by (simp add: read_profile_def profile_g0_def profile_g1_def pg_client_select_down_def
      pg_client_select_rejects_def pg_client_def pg_select_single_def failed_def
      unreachable_def no_rows_def eq_text_def empty_db_def of_opt_def)

text \<open>The events of a run, and the store calls of the two evaluated runs.\<close>

lemma done_calls_requests: "done_calls (map Requested tr @ es) = done_calls es"
  by (induction tr) auto

lemma select_down_try:
  "verify_try pg_client_select_down (Some profile_g0) 1000 one_user_db =
     (Inl (StoreError unreachable), [Select_single (Some ''g-0'')], one_user_db)"
  by (simp add: verify_try_def read_profile_def profile_g0_def pg_client_select_down_def
      pg_client_def failed_def unreachable_def)

lemma pg_calls_first_login:
  "select_single pg_client (Some ''g-1'') empty_db =
     (Fulfilled \<lparr>data = None, error = Some no_rows\<rparr>, empty_db)"
  "err_code no_rows = ''PGRST116''"
  "insert_single pg_client
     [(''google_id'', Str ''g-1''), (''email'', Str ''a@x.com''), (''name'', Str ''A''),
      (''picture'', Undefined)] empty_db =
     (Fulfilled \<lparr>data = Some row_g1, error = None\<rparr>,
      \<lparr>users = [row_g1], next_id = 1, db_now = 5\<rparr>)"
  by (simp_all add: pg_client_def pg_select_single_def pg_insert_single_def empty_db_def
      row_g1_def failed_def no_rows_def eq_text_def sent_def is_text_entry_def text_col_def
      Let_def)

lemma pg_calls_repeat_login:
  "select_single pg_client (Some ''g-0'') one_user_db =
     (Fulfilled \<lparr>data = Some row_g0, error = None\<rparr>, one_user_db)"
  "update_eq_id pg_client [(''last_login'', Time 1000)] 0 one_user_db =
     (Fulfilled \<lparr>data = None, error = None\<rparr>,
      \<lparr>users = [row_g0\<lparr>last_login := Some 1000\<rparr>], next_id = 1, db_now = 5\<rparr>)"
  by (simp_all add: pg_client_def pg_select_single_def pg_update_eq_id_def one_user_db_def
      row_g0_def eq_text_def)

text \<open>
  C10. For every profile value, every client and every store state, the callback returns
  (no exception leaves it) having called \<^verbatim>\<open>done\<close> exactly once: \<^verbatim>\<open>done(null, user)\<close> with a
  user, or \<^verbatim>\<open>done(error, null)\<close>. Whatever the \<^verbatim>\<open>try\<close> block throws is logged and handed
  to \<^verbatim>\<open>done\<close> as the error. A missing profile, a missing or empty \<^verbatim>\<open>emails\<close> array and a
  missing \<^verbatim>\<open>photos\<close> array throw a TypeError before any request is sent. An empty
  \<^verbatim>\<open>photos\<close> array throws nothing: the picture is undefined in the insert, and when the
  store answers the insert with a row, \<^verbatim>\<open>done(null, user)\<close> is called with that row; when
  the query finds a row and the update settles, \<^verbatim>\<open>done(null, user)\<close> is called with the row
  found.
\<close>

theorem verify_run_calls_done_once:
  "completion (verify_run c po now s) = Returned \<and>
   ((\<exists>u. done_calls (events (verify_run c po now s)) = [Done None (Some u)]) \<or>
    (\<exists>x. done_calls (events (verify_run c po now s)) = [Done (Some x) None])) \<and>
   (verify_try c po now s = (Inl x, tr, s') \<longrightarrow>
      verify_run c po now s =
        \<lparr>completion = Returned,
         events = map Requested tr @ [Console_error x, Called_done (Done (Some x) None)],
         store_end = s'\<rparr>) \<and>
   (po = None \<or>
    (\<exists>p. po = Some p \<and> (emails p = None \<or> emails p = Some [] \<or> photos p = None)) \<longrightarrow>
      verify_run c po now s =
        \<lparr>completion = Returned,
         events = [Console_error TypeError, Called_done (Done (Some TypeError) None)],
         store_end = s\<rparr>) \<and>
   (po = Some p \<and> emails p = Some (e # es) \<and> photos p = Some [] \<and>
      select_single c (profile_id p) s = (Fulfilled \<lparr>data = None, error = Some fe\<rparr>, s1) \<and>
      err_code fe = ''PGRST116'' \<and>
      insert_single c
        [(''google_id'', of_opt (profile_id p)), (''email'', of_opt (entry_value e)),
         (''name'', of_opt (displayName p)), (''picture'', Undefined)] s1
        = (Fulfilled \<lparr>data = Some u, error = None\<rparr>, s2) \<longrightarrow>
      verify_run c po now s =
        \<lparr>completion = Returned,
         events =
           [Requested (Select_single (profile_id p)),
            Requested (Insert_single
              [(''google_id'', of_opt (profile_id p)), (''email'', of_opt (entry_value e)),
               (''name'', of_opt (displayName p)), (''picture'', Undefined)]),
            Called_done (Done None (Some
              \<lparr>row_id = row_id u, google_id = google_id u, email = email u, name = name u,
               picture = picture u, created_at = created_at u, last_login = last_login u,
               is_active = is_active u, isNewUser = True\<rparr>))],
         store_end = s2\<rparr>) \<and>
   (po = Some p \<and> emails p = Some (e # es) \<and> photos p = Some ps \<and>
      select_single c (profile_id p) s = (Fulfilled \<lparr>data = Some v, error = None\<rparr>, s1) \<and>
      update_eq_id c [(''last_login'', Time now)] (row_id v) s1 = (Fulfilled r, s2) \<longrightarrow>
      verify_run c po now s =
        \<lparr>completion = Returned,
         events =
           [Requested (Select_single (profile_id p)),
            Requested (Update_eq_id [(''last_login'', Time now)] (row_id v)),
            Called_done (Done None (Some
              \<lparr>row_id = row_id v, google_id = google_id v, email = email v, name = name v,
               picture = picture v, created_at = created_at v, last_login = last_login v,
               is_active = is_active v, isNewUser = False\<rparr>))],
         store_end = s2\<rparr>)"
proof (intro conjI impI)
  show "completion (verify_run c po now s) = Returned"
    by (simp add: verify_run_def try_block_def catch_block_def split: prod.splits sum.splits)
  show "(\<exists>u. done_calls (events (verify_run c po now s)) = [Done None (Some u)]) \<or>
    (\<exists>x. done_calls (events (verify_run c po now s)) = [Done (Some x) None])"
    by (simp add: verify_run_def try_block_def catch_block_def done_calls_requests
        split: prod.splits sum.splits)
  show "verify_run c po now s =
        \<lparr>completion = Returned,
         events = map Requested tr @ [Console_error x, Called_done (Done (Some x) None)],
         store_end = s'\<rparr>" if "verify_try c po now s = (Inl x, tr, s')"
    using that by (simp add: verify_run_def try_block_def catch_block_def)
  show "verify_run c po now s =
        \<lparr>completion = Returned,
         events = [Console_error TypeError, Called_done (Done (Some TypeError) None)],
         store_end = s\<rparr>"
    if "po = None \<or>
      (\<exists>p. po = Some p \<and> (emails p = None \<or> emails p = Some [] \<or> photos p = None))"
    using that
    by (auto simp: verify_run_def try_block_def catch_block_def verify_try_def read_profile_def
        split: option.splits list.splits)
next
  assume "po = Some p \<and> emails p = Some (e # es) \<and> photos p = Some [] \<and>
      select_single c (profile_id p) s = (Fulfilled \<lparr>data = None, error = Some fe\<rparr>, s1) \<and>
      err_code fe = ''PGRST116'' \<and>
      insert_single c
        [(''google_id'', of_opt (profile_id p)), (''email'', of_opt (entry_value e)),
         (''name'', of_opt (displayName p)), (''picture'', Undefined)] s1
        = (Fulfilled \<lparr>data = Some u, error = None\<rparr>, s2)"
  then show "verify_run c po now s =
        \<lparr>completion = Returned,
         events =
           [Requested (Select_single (profile_id p)),
            Requested (Insert_single
              [(''google_id'', of_opt (profile_id p)), (''email'', of_opt (entry_value e)),
               (''name'', of_opt (displayName p)), (''picture'', Undefined)]),
            Called_done (Done None (Some
              \<lparr>row_id = row_id u, google_id = google_id u, email = email u, name = name u,
               picture = picture u, created_at = created_at u, last_login = last_login u,
               is_active = is_active u, isNewUser = True\<rparr>))],
         store_end = s2\<rparr>"
    by (simp add: verify_run_def try_block_def verify_try_def upsert_branch_def
        read_profile_def set_isNewUser_def of_opt_def [of None])
next
  assume a: "po = Some p \<and> emails p = Some (e # es) \<and> photos p = Some ps \<and>
      select_single c (profile_id p) s = (Fulfilled \<lparr>data = Some v, error = None\<rparr>, s1) \<and>
      update_eq_id c [(''last_login'', Time now)] (row_id v) s1 = (Fulfilled r, s2)"
  then have "read_profile po =
      Inr (profile_id p, entry_value e, displayName p,
           (case ps of [] \<Rightarrow> None | ph # _ \<Rightarrow> entry_value ph))"
    by (simp add: read_profile_ok)
  with a show "verify_run c po now s =
        \<lparr>completion = Returned,
         events =
           [Requested (Select_single (profile_id p)),
            Requested (Update_eq_id [(''last_login'', Time now)] (row_id v)),
            Called_done (Done None (Some
              \<lparr>row_id = row_id v, google_id = google_id v, email = email v, name = name v,
               picture = picture v, created_at = created_at v, last_login = last_login v,
               is_active = is_active v, isNewUser = False\<rparr>))],
         store_end = s2\<rparr>"
    by (simp add: verify_run_def try_block_def verify_try_def upsert_branch_def
        set_isNewUser_def)
qed

theorem verify_run_calls_done_once_witness:
  "verify_run pg_client None 1000 empty_db =
     \<lparr>completion = Returned,
      events = [Console_error TypeError, Called_done (Done (Some TypeError) None)],
      store_end = empty_db\<rparr> \<and>
   verify_run pg_client (Some profile_g0_no_photos) 1000 one_user_db =
     \<lparr>completion = Returned,
      events = [Console_error TypeError, Called_done (Done (Some TypeError) None)],
      store_end = one_user_db\<rparr> \<and>
   verify_run pg_client_select_down (Some profile_g0) 1000 one_user_db =
     \<lparr>completion = Returned,
      events = [Requested (Select_single (Some ''g-0'')), Console_error (StoreError unreachable),
                Called_done (Done (Some (StoreError unreachable)) None)],
      store_end = one_user_db\<rparr> \<and>
   verify_run pg_client (Some profile_g1) 1000 empty_db =
     \<lparr>completion = Returned,
      events =
        [Requested (Select_single (Some ''g-1'')),
         Requested (Insert_single [(''google_id'', Str ''g-1''), (''email'', Str ''a@x.com''),
                                   (''name'', Str ''A''), (''picture'', Undefined)]),
         Called_done (Done None (Some
           \<lparr>row_id = 0, google_id = ''g-1'', email = ''a@x.com'', name = Some ''A'',
            picture = None, created_at = 5, last_login = None, is_active = Some True,
            isNewUser = True\<rparr>))],
      store_end = \<lparr>users = [row_g1], next_id = 1, db_now = 5\<rparr>\<rparr> \<and>
   verify_run pg_client (Some profile_g0) 1000 one_user_db =
     \<lparr>completion = Returned,
      events =
        [Requested (Select_single (Some ''g-0'')),
         Requested (Update_eq_id [(''last_login'', Time 1000)] 0),
         Called_done (Done None (Some
           \<lparr>row_id = 0, google_id = ''g-0'', email = ''a@x.com'', name = Some ''A'',
            picture = None, created_at = 0, last_login = None, is_active = Some True,
            isNewUser = False\<rparr>))],
      store_end = \<lparr>users = [row_g0\<lparr>last_login := Some 1000\<rparr>], next_id = 1, db_now = 5\<rparr>\<rparr>"
proof -
  have a: "verify_run pg_client None 1000 empty_db =
     \<lparr>completion = Returned,
      events = [Console_error TypeError, Called_done (Done (Some TypeError) None)],
      store_end = empty_db\<rparr>"
    using verify_run_calls_done_once [where c = pg_client and po = None and now = 1000
        and s = empty_db]
    by simp
  have b: "verify_run pg_client (Some profile_g0_no_photos) 1000 one_user_db =
     \<lparr>completion = Returned,
      events = [Console_error TypeError, Called_done (Done (Some TypeError) None)],
      store_end = one_user_db\<rparr>"
    using verify_run_calls_done_once [where c = pg_client
        and po = "Some profile_g0_no_photos" and now = 1000 and s = one_user_db]
    by (simp add: profile_g0_no_photos_def)
  have c: "verify_run pg_client_select_down (Some profile_g0) 1000 one_user_db =
     \<lparr>completion = Returned,
      events = [Requested (Select_single (Some ''g-0'')), Console_error (StoreError unreachable),
                Called_done (Done (Some (StoreError unreachable)) None)],
      store_end = one_user_db\<rparr>"
    using verify_run_calls_done_once [where c = pg_client_select_down
        and po = "Some profile_g0" and now = 1000 and s = one_user_db
        and x = "StoreError unreachable" and tr = "[Select_single (Some ''g-0'')]"
        and s' = one_user_db]
      select_down_try
    by simp
  have d: "verify_run pg_client (Some profile_g1) 1000 empty_db =
     \<lparr>completion = Returned,
      events =
        [Requested (Select_single (Some ''g-1'')),
         Requested (Insert_single [(''google_id'', Str ''g-1''), (''email'', Str ''a@x.com''),
                                   (''name'', Str ''A''), (''picture'', Undefined)]),
         Called_done (Done None (Some
           \<lparr>row_id = 0, google_id = ''g-1'', email = ''a@x.com'', name = Some ''A'',
            picture = None, created_at = 5, last_login = None, is_active = Some True,
            isNewUser = True\<rparr>))],
      store_end = \<lparr>users = [row_g1], next_id = 1, db_now = 5\<rparr>\<rparr>"
    using verify_run_calls_done_once [where c = pg_client and po = "Some profile_g1"
        and now = 1000 and s = empty_db and p = profile_g1
        and e = "Entry (Some ''a@x.com'')" and es = "[]" and fe = no_rows
        and ?s1.0 = empty_db and u = row_g1
        and ?s2.0 = "\<lparr>users = [row_g1], next_id = 1, db_now = 5\<rparr>"]
      pg_calls_first_login
    by (simp add: profile_g1_def row_g1_def of_opt_def)
  have e: "verify_run pg_client (Some profile_g0) 1000 one_user_db =
     \<lparr>completion = Returned,
      events =
        [Requested (Select_single (Some ''g-0'')),
         Requested (Update_eq_id [(''last_login'', Time 1000)] 0),
         Called_done (Done None (Some
           \<lparr>row_id = 0, google_id = ''g-0'', email = ''a@x.com'', name = Some ''A'',
            picture = None, created_at = 0, last_login = None, is_active = Some True,
            isNewUser = False\<rparr>))],
      store_end = \<lparr>users = [row_g0\<lparr>last_login := Some 1000\<rparr>], next_id = 1, db_now = 5\<rparr>\<rparr>"
    using verify_run_calls_done_once [where c = pg_client and po = "Some profile_g0"
        and now = 1000 and s = one_user_db and p = profile_g0
        and e = "Entry (Some ''a@x.com'')" and es = "[]" and ps = "[]" and v = row_g0
        and ?s1.0 = one_user_db and r = "\<lparr>data = None, error = None\<rparr>"
        and ?s2.0 = "\<lparr>users = [row_g0\<lparr>last_login := Some 1000\<rparr>], next_id = 1, db_now = 5\<rparr>"]
      pg_calls_repeat_login
    by (simp add: profile_g0_def row_g0_def)
  from a b c d e show ?thesis by simp
qed

section \<open>Gates and routes\<close>

text \<open>
  C7. The admin gate lets a request pass iff a principal is attached and its email is
  equal, character for character, to the configured admin email; every other request is
  answered with status 403 and the text \<^verbatim>\<open>Access denied. Admin only.\<close>, never with a
  redirect.
\<close>

theorem admin_gate:
  "(isAdmin env req = Next) = (\<exists>u. req_user req = Some u \<and> email u = ADMIN_EMAIL env) \<and>
   (isAdmin env req \<noteq> Next \<longrightarrow> isAdmin env req = Send 403 ''Access denied. Admin only.'') \<and>
   (\<forall>url. isAdmin env req \<noteq> Redirect url)"
  by (auto simp: isAdmin_def req_isAuthenticated_def split: option.splits)

theorem admin_gate_witness:
  "isAdmin (Some ''admin@x.com'')
      \<lparr>req_user = Some (set_isNewUser (row_g0\<lparr>email := ''Admin@x.com''\<rparr>) False)\<rparr>
     = Send 403 ''Access denied. Admin only.'' \<and>
   isAdmin (Some ''admin@x.com'')
      \<lparr>req_user = Some (set_isNewUser (row_g0\<lparr>email := ''admin@x.com''\<rparr>) False)\<rparr> = Next \<and>
   isAdmin (Some ''admin@x.com'') \<lparr>req_user = None\<rparr> = Send 403 ''Access denied. Admin only.''"
  using
    admin_gate [of "Some ''admin@x.com''"
      "\<lparr>req_user = Some (set_isNewUser (row_g0\<lparr>email := ''Admin@x.com''\<rparr>) False)\<rparr>"]
    admin_gate [of "Some ''admin@x.com''"
      "\<lparr>req_user = Some (set_isNewUser (row_g0\<lparr>email := ''admin@x.com''\<rparr>) False)\<rparr>"]
    admin_gate [of "Some ''admin@x.com''" "\<lparr>req_user = None\<rparr>"]
  by (simp add: ADMIN_EMAIL_def set_isNewUser_def)

text \<open>
  C8 (amended). On the OAuth callback route a successful authentication is redirected to
  \<^verbatim>\<open>/dashboard?welcome=true\<close> iff the Identity Upsert created the user on this call (the
  verify callback sent the insert and handed the new row to \<^verbatim>\<open>done\<close>), and to
  \<^verbatim>\<open>/dashboard\<close> with no marker otherwise. An authentication that the strategy fails
  without an error is redirected to \<^verbatim>\<open>/\<close>. A failure that the verify callback reports with
  \<^verbatim>\<open>done(error, null)\<close> is not redirected: it reaches the error handler of the application,
  which answers with status 500 and the JSON body \<^verbatim>\<open>{ error: 'Internal server error' }\<close>; the
  verify callback never causes the redirect to \<^verbatim>\<open>/\<close>.
\<close>

theorem oauth_callback_replies:
  "auth_google_callback Failed = Redirect ''/'' \<and>
   auth_google_callback (Errored x) = Json 500 [(''error'', ''Internal server error'')] \<and>
   auth_google_callback (Authenticated u) =
     (if isNewUser u then Redirect ''/dashboard?welcome=true'' else Redirect ''/dashboard'') \<and>
   (called (verify c po now s) = Done (Some y) None \<longrightarrow>
      oauth_callback c po now s = Json 500 [(''error'', ''Internal server error'')]) \<and>
   (oauth_callback c po now s = Redirect ''/dashboard?welcome=true'') =
     (\<exists>v. called (verify c po now s) = Done None (Some v) \<and>
          (\<exists>p. Insert_single p \<in> set (issued (verify c po now s)))) \<and>
   (oauth_callback c po now s = Redirect ''/dashboard'') =
     (\<exists>v. called (verify c po now s) = Done None (Some v) \<and>
          \<not> (\<exists>p. Insert_single p \<in> set (issued (verify c po now s)))) \<and>
   oauth_callback c po now s \<noteq> Redirect ''/'' \<and>
   (read_profile po = Inr (g, e, n, pic) \<and>
    select_single c g s = (Fulfilled \<lparr>data = None, error = Some fe\<rparr>, s1) \<and>
    err_code fe = ''PGRST116'' \<and>
    insert_single c [(''google_id'', of_opt g), (''email'', of_opt e),
                     (''name'', of_opt n), (''picture'', of_opt pic)] s1
      = (Fulfilled \<lparr>data = Some w, error = None\<rparr>, s2) \<longrightarrow>
      oauth_callback c po now s = Redirect ''/dashboard?welcome=true'') \<and>
   (read_profile po = Inr (g, e, n, pic) \<and>
    select_single c g s = (Fulfilled \<lparr>data = Some w, error = None\<rparr>, s1) \<and>
    update_eq_id c [(''last_login'', Time now)] (row_id w) s1 = (Fulfilled r, s2) \<longrightarrow>
      oauth_callback c po now s = Redirect ''/dashboard'')"
proof (intro conjI impI)
  show "auth_google_callback Failed = Redirect ''/''"
    by (simp add: auth_google_callback_def passport_authenticate_def)
  show "auth_google_callback (Errored x) = Json 500 [(''error'', ''Internal server error'')]"
    by (simp add: auth_google_callback_def passport_authenticate_def error_handler_def)
  show "auth_google_callback (Authenticated u) =
     (if isNewUser u then Redirect ''/dashboard?welcome=true'' else Redirect ''/dashboard'')"
    by (simp add: auth_google_callback_def passport_authenticate_def callback_handler_def)
  show "oauth_callback c po now s = Json 500 [(''error'', ''Internal server error'')]"
    if "called (verify c po now s) = Done (Some y) None"
    using that
    by (simp add: oauth_callback_def strategy_result_def auth_google_callback_def
        passport_authenticate_def error_handler_def)
  show "(oauth_callback c po now s = Redirect ''/dashboard?welcome=true'') =
     (\<exists>v. called (verify c po now s) = Done None (Some v) \<and>
          (\<exists>p. Insert_single p \<in> set (issued (verify c po now s))))"
    using verify_shape [of c po now s]
    by (elim disjE exE conjE)
      (auto simp: oauth_callback_def strategy_result_def auth_google_callback_def
        passport_authenticate_def error_handler_def callback_handler_def)
  show "(oauth_callback c po now s = Redirect ''/dashboard'') =
     (\<exists>v. called (verify c po now s) = Done None (Some v) \<and>
          \<not> (\<exists>p. Insert_single p \<in> set (issued (verify c po now s))))"
    using verify_shape [of c po now s]
    by (elim disjE exE conjE)
      (auto simp: oauth_callback_def strategy_result_def auth_google_callback_def
        passport_authenticate_def error_handler_def callback_handler_def)
  show "oauth_callback c po now s \<noteq> Redirect ''/''"
    using verify_shape [of c po now s]
    by (elim disjE exE conjE)
      (auto simp: oauth_callback_def strategy_result_def auth_google_callback_def
        passport_authenticate_def error_handler_def callback_handler_def)
  show "oauth_callback c po now s = Redirect ''/dashboard?welcome=true''"
    if "read_profile po = Inr (g, e, n, pic) \<and>
      select_single c g s = (Fulfilled \<lparr>data = None, error = Some fe\<rparr>, s1) \<and>
      err_code fe = ''PGRST116'' \<and>
      insert_single c [(''google_id'', of_opt g), (''email'', of_opt e),
                       (''name'', of_opt n), (''picture'', of_opt pic)] s1
        = (Fulfilled \<lparr>data = Some w, error = None\<rparr>, s2)"
    using that
    by (simp add: oauth_callback_def strategy_result_def auth_google_callback_def
        passport_authenticate_def callback_handler_def verify_def verify_try_def
        upsert_branch_def isNewUser_set_isNewUser)
  show "oauth_callback c po now s = Redirect ''/dashboard''"
    if "read_profile po = Inr (g, e, n, pic) \<and>
      select_single c g s = (Fulfilled \<lparr>data = Some w, error = None\<rparr>, s1) \<and>
      update_eq_id c [(''last_login'', Time now)] (row_id w) s1 = (Fulfilled r, s2)"
    using that
    by (simp add: oauth_callback_def strategy_result_def auth_google_callback_def
        passport_authenticate_def callback_handler_def verify_def verify_try_def
        upsert_branch_def isNewUser_set_isNewUser)
qed

theorem oauth_callback_replies_witness:
  "oauth_callback pg_client (Some profile_g1) 1000 empty_db
     = Redirect ''/dashboard?welcome=true'' \<and>
   oauth_callback pg_client (Some profile_g0) 1000 one_user_db = Redirect ''/dashboard'' \<and>
   called (verify pg_client (Some profile_g0_no_photos) 1000 one_user_db)
     = Done (Some TypeError) None \<and>
   oauth_callback pg_client (Some profile_g0_no_photos) 1000 one_user_db
     = Json 500 [(''error'', ''Internal server error'')]"
proof -
  have a: "oauth_callback pg_client (Some profile_g1) 1000 empty_db
     = Redirect ''/dashboard?welcome=true''"
    using oauth_callback_replies [where c = pg_client and po = "Some profile_g1"
        and now = 1000 and s = empty_db and g = "Some ''g-1''" and e = "Some ''a@x.com''"
        and n = "Some ''A''" and pic = None and fe = no_rows and ?s1.0 = empty_db
        and w = row_g1 and ?s2.0 = "\<lparr>users = [row_g1], next_id = 1, db_now = 5\<rparr>"]
      pg_calls_first_login
    by (simp add: read_profile_def profile_g1_def of_opt_def)
  have b: "oauth_callback pg_client (Some profile_g0) 1000 one_user_db = Redirect ''/dashboard''"
    using oauth_callback_replies [where c = pg_client and po = "Some profile_g0"
        and now = 1000 and s = one_user_db and g = "Some ''g-0''" and e = "Some ''a@x.com''"
        and n = "Some ''A''" and pic = None and w = row_g0 and ?s1.0 = one_user_db
        and r = "\<lparr>data = None, error = None\<rparr>"
        and ?s2.0 = "\<lparr>users = [row_g0\<lparr>last_login := Some 1000\<rparr>], next_id = 1, db_now = 5\<rparr>"]
      pg_calls_repeat_login
    by (simp add: read_profile_def profile_g0_def row_g0_def)
  have c: "called (verify pg_client (Some profile_g0_no_photos) 1000 one_user_db)
     = Done (Some TypeError) None"
    by (simp add: verify_def verify_try_def read_profile_def profile_g0_no_photos_def)
  from c have d: "oauth_callback pg_client (Some profile_g0_no_photos) 1000 one_user_db
     = Json 500 [(''error'', ''Internal server error'')]"
    using oauth_callback_replies [where c = pg_client and po = "Some profile_g0_no_photos"
        and now = 1000 and s = one_user_db and y = TypeError]
    by simp
  from a b c d show ?thesis by simp
qed

text \<open>
  C8 as stated fails when the store cannot be reached during the upsert: the verify
  callback reports the failure with \<^verbatim>\<open>done(error, null)\<close>, and the route answers with status
  500 and a JSON body instead of redirecting to \<^verbatim>\<open>/\<close>.
\<close>

theorem oauth_callback_store_error_counterexample:
  "called (verify pg_client_select_down (Some profile_g0) 1000 one_user_db)
     = Done (Some (StoreError unreachable)) None \<and>
   oauth_callback pg_client_select_down (Some profile_g0) 1000 one_user_db
     = Json 500 [(''error'', ''Internal server error'')] \<and>
   oauth_callback pg_client_select_down (Some profile_g0) 1000 one_user_db \<noteq> Redirect ''/''"
  by (simp add: oauth_callback_def strategy_result_def auth_google_callback_def
      passport_authenticate_def error_handler_def verify_def select_down_try)

section \<open>Admin statistics\<close>

lemma local_midnight_fixed_zone:
  "local_midnight (fixed_zone tz) now = now - (now + tz) mod day_ms"
  by (simp add: local_midnight_def fixed_zone_def LocalTime_def UTC_def)

lemma week_ago_fixed_zone: "week_ago (fixed_zone tz) t = t - 7 * day_ms"
  by (simp add: week_ago_def fixed_zone_def LocalTime_def UTC_def)

lemma plausible_clock_fixed_zone: "plausible_clock (fixed_zone tz) now"
proof -
  define m where "m = (now + tz) mod 86400000"
  have m: "0 \<le> m" "m < 86400000"
    by (simp_all add: m_def)
  have mid: "local_midnight (fixed_zone tz) now = now - m"
    by (simp add: local_midnight_fixed_zone day_ms_def m_def)
  show ?thesis
    unfolding plausible_clock_def week_ago_fixed_zone mid
    using m by (simp add: day_ms_def)
qed

lemma new_york_midnights:
  "local_midnight new_york_autumn_2024 1730826000000 = 1730782800000"
  "week_ago new_york_autumn_2024 1730782800000 = 1730174400000"
  by (simp_all add: local_midnight_def week_ago_def new_york_autumn_2024_def LocalTime_def
      UTC_def day_ms_def hour_ms_def)

lemma plausible_clock_new_york: "plausible_clock new_york_autumn_2024 1730826000000"
  by (simp add: plausible_clock_def new_york_midnights day_ms_def)

text \<open>
  C9 (amended). For every list of user rows: \<open>totalUsers\<close> is the number of rows,
  \<open>activeUsers\<close> the number whose active flag is true, \<open>newToday\<close> the number created at or
  after local midnight today, \<open>newThisWeek\<close> the number created at or after the local
  midnight seven calendar days before today, both in the server's time zone (in a zone
  with a fixed offset these are the start of the local day and exactly seven days before
  it; across a daylight-saving change the second is not exactly seven days before the
  first). For users created at \<open>T - 10d\<close>, \<open>T - 2d\<close> and \<open>T - 1h\<close>, in a zone where local
  midnight today lies within the two days up to \<open>T\<close> and the local midnight seven calendar
  days before lies six to eight days before it: \<open>totalUsers = 3\<close>, \<open>newThisWeek = 2\<close>, and
  \<open>newToday = 1\<close> when \<open>T\<close> is at least one hour after local midnight today, \<open>0\<close> otherwise.
\<close>

theorem admin_stats_counts:
  "totalUsers (admin_stats z now us) = length us \<and>
   activeUsers (admin_stats z now us) = length (filter (\<lambda>u. is_active u = Some True) us) \<and>
   newToday (admin_stats z now us) =
     length (filter (\<lambda>u. local_midnight z now \<le> created_at u) us) \<and>
   newThisWeek (admin_stats z now us) =
     length (filter (\<lambda>u. week_ago z (local_midnight z now) \<le> created_at u) us) \<and>
   local_midnight (fixed_zone tz) now = now - (now + tz) mod day_ms \<and>
   week_ago (fixed_zone tz) t = t - 7 * day_ms \<and>
   plausible_clock (fixed_zone tz) now \<and>
   (plausible_clock z now \<and> created_at a = now - 10 * day_ms \<and>
    created_at b = now - 2 * day_ms \<and> created_at c = now - hour_ms \<longrightarrow>
      totalUsers (admin_stats z now [a, b, c]) = 3 \<and>
      newThisWeek (admin_stats z now [a, b, c]) = 2 \<and>
      newToday (admin_stats z now [a, b, c]) =
        (if local_midnight z now + hour_ms \<le> now then 1 else 0))"
proof (intro conjI impI)
  show "totalUsers (admin_stats z now us) = length us"
    by (simp add: admin_stats_def Let_def)
  show "activeUsers (admin_stats z now us) = length (filter (\<lambda>u. is_active u = Some True) us)"
    by (simp add: admin_stats_def Let_def)
  show "newToday (admin_stats z now us) =
     length (filter (\<lambda>u. local_midnight z now \<le> created_at u) us)"
    by (simp add: admin_stats_def Let_def)
  show "newThisWeek (admin_stats z now us) =
     length (filter (\<lambda>u. week_ago z (local_midnight z now) \<le> created_at u) us)"
    by (simp add: admin_stats_def Let_def)
  show "local_midnight (fixed_zone tz) now = now - (now + tz) mod day_ms"
    by (rule local_midnight_fixed_zone)
  show "week_ago (fixed_zone tz) t = t - 7 * day_ms"
    by (rule week_ago_fixed_zone)
  show "plausible_clock (fixed_zone tz) now"
    by (rule plausible_clock_fixed_zone)
next
  assume h: "plausible_clock z now \<and> created_at a = now - 10 * day_ms \<and>
    created_at b = now - 2 * day_ms \<and> created_at c = now - hour_ms"
  define today where "today = local_midnight z now"
  define weekAgo where "weekAgo = week_ago z today"
  have clock: "today \<le> now" "now < today + 172800000" "today - 691200000 \<le> weekAgo"
    "weekAgo \<le> today - 518400000"
    using h by (simp_all add: plausible_clock_def today_def weekAgo_def day_ms_def)
  have made: "created_at a = now - 864000000" "created_at b = now - 172800000"
    "created_at c = now - 3600000"
    using h by (simp_all add: day_ms_def hour_ms_def)
  have nw: "newThisWeek (admin_stats z now [a, b, c]) =
      length (filter (\<lambda>u. weekAgo \<le> created_at u) [a, b, c])"
    by (simp add: admin_stats_def Let_def today_def weekAgo_def)
  have nt: "newToday (admin_stats z now [a, b, c]) =
      length (filter (\<lambda>u. today \<le> created_at u) [a, b, c])"
    by (simp add: admin_stats_def Let_def today_def)
  have week: "length (filter (\<lambda>u. weekAgo \<le> created_at u) [a, b, c]) = 2"
    using clock by (simp add: made)
  have day: "length (filter (\<lambda>u. today \<le> created_at u) [a, b, c]) =
      (if today + 3600000 \<le> now then 1 else 0)"
    using clock by (simp add: made)
  have cond: "(local_midnight z now + hour_ms \<le> now) = (today + 3600000 \<le> now)"
    by (simp add: today_def hour_ms_def)
  show "totalUsers (admin_stats z now [a, b, c]) = 3"
    by (simp add: admin_stats_def Let_def)
  show "newThisWeek (admin_stats z now [a, b, c]) = 2"
    unfolding nw by (rule week)
  show "newToday (admin_stats z now [a, b, c]) =
        (if local_midnight z now + hour_ms \<le> now then 1 else 0)"
    unfolding nt cond by (rule day)
qed

theorem admin_stats_counts_witness:
  "plausible_clock new_york_autumn_2024 1730826000000 \<and>
   local_midnight new_york_autumn_2024 1730826000000 = 1730782800000 \<and>
   week_ago new_york_autumn_2024 1730782800000 = 1730782800000 - 7 * day_ms - hour_ms \<and>
   totalUsers (admin_stats new_york_autumn_2024 1730826000000
      [created (1730826000000 - 10 * day_ms), created (1730826000000 - 2 * day_ms),
       created (1730826000000 - hour_ms)]) = 3 \<and>
   newThisWeek (admin_stats new_york_autumn_2024 1730826000000
      [created (1730826000000 - 10 * day_ms), created (1730826000000 - 2 * day_ms),
       created (1730826000000 - hour_ms)]) = 2 \<and>
   newToday (admin_stats new_york_autumn_2024 1730826000000
      [created (1730826000000 - 10 * day_ms), created (1730826000000 - 2 * day_ms),
       created (1730826000000 - hour_ms)]) = 1 \<and>
   newThisWeek (admin_stats new_york_autumn_2024 1730826000000
      [created 1730176200000, created 1730170000000]) = 1"
  using plausible_clock_new_york
    admin_stats_counts [of new_york_autumn_2024 1730826000000 "[]" 0 0
      "created (1730826000000 - 10 * day_ms)" "created (1730826000000 - 2 * day_ms)"
      "created (1730826000000 - hour_ms)"]
    admin_stats_counts [of new_york_autumn_2024 1730826000000
      "[created 1730176200000, created 1730170000000]"]
  by (simp add: new_york_midnights created_def day_ms_def hour_ms_def)

text \<open>
  C9 as stated fails half an hour after local midnight (UTC, instant 1728001800000): the
  user created one hour before now was created yesterday, so \<open>newToday\<close> is 0, not 1.
\<close>

theorem admin_stats_after_midnight_counterexample:
  "newToday (admin_stats (fixed_zone 0) 1728001800000
      [created (1728001800000 - 10 * day_ms), created (1728001800000 - 2 * day_ms),
       created (1728001800000 - hour_ms)]) = 0"
  by (simp add: admin_stats_def local_midnight_fixed_zone week_ago_fixed_zone Let_def
      day_ms_def hour_ms_def created_def row_g0_def)

section \<open>Schema provisioning\<close>

lemma add_columns_present:
  "list_all fst cs \<Longrightarrow> snd ` set cs \<subseteq> set cols \<Longrightarrow> add_columns cs cols = Inr cols"
  by (induction cs) auto

lemma add_columns_grows:
  "add_columns cs cols = Inr cols' \<Longrightarrow> set cols \<subseteq> set cols' \<and> snd ` set cs \<subseteq> set cols'"
proof (induction cs arbitrary: cols)
  case Nil
  then show ?case by simp
next
  case (Cons a cs)
  obtain g col where a: "a = (g, col)" by (cases a)
  show ?case
  proof (cases "col \<in> set cols")
    case True
    with Cons.prems a have "add_columns cs cols = Inr cols'"
      by (simp split: if_splits)
    from Cons.IH [OF this] True a show ?thesis by auto
  next
    case False
    with Cons.prems a have "add_columns cs (cols @ [col]) = Inr cols'"
      by simp
    from Cons.IH [OF this] a show ?thesis by auto
  qed
qed

lemma createTables_again:
  "run createTables_sql c = Inr c1 \<Longrightarrow> run createTables_sql c1 = Inr c1"
  by (auto simp: createTables_sql_def split: option.splits)

lemma addOAuthTokenColumns_again:
  assumes "run addOAuthTokenColumns_sql c = Inr c1"
  shows "run addOAuthTokenColumns_sql c1 = Inr c1"
proof -
  let ?cs = "[(True, ''access_token''), (True, ''refresh_token''), (True, ''token_expiry''),
         (True, ''gmail_watch_enabled''), (True, ''gmail_watch_expiration''),
         (True, ''gmail_history_id'')]"
  from assms obtain cols n cols' where
    t: "tables c ''users'' = Some (cols, n)" and
    a: "add_columns ?cs cols = Inr cols'" and
    c1: "c1 = c\<lparr>tables := (tables c)(''users'' \<mapsto> (cols', n))\<rparr>"
    by (auto simp: addOAuthTokenColumns_sql_def split: option.splits sum.splits)
  have "snd ` set ?cs \<subseteq> set cols'"
    using add_columns_grows [OF a] by blast
  then have "add_columns ?cs cols' = Inr cols'"
    by (intro add_columns_present) simp_all
  then show ?thesis
    by (simp add: addOAuthTokenColumns_sql_def c1)
qed

lemma drop_indexes_on_absent:
  "wf_catalog c \<Longrightarrow> tables c t = None \<Longrightarrow> drop_indexes_on t (indexes c) = indexes c"
  by (rule ext) (fastforce simp: drop_indexes_on_def wf_catalog_def split: option.splits)

lemma exec_drop_if_exists:
  "wf_catalog c \<Longrightarrow>
   exec_ddl (Drop_table True t b) c =
     Inr (c\<lparr>tables := (tables c)(t := None), indexes := drop_indexes_on t (indexes c)\<rparr>)"
  by (cases "tables c t") (simp_all add: drop_indexes_on_absent fun_upd_idem)

lemma wf_catalog_drop:
  "wf_catalog c \<Longrightarrow>
   wf_catalog (c\<lparr>tables := (tables c)(t := None), indexes := drop_indexes_on t (indexes c)\<rparr>)"
  by (auto simp: wf_catalog_def drop_indexes_on_def split: option.splits if_splits)

lemma run_drops:
  "wf_catalog c \<Longrightarrow>
   run (Drop_table True ''sessions'' True # Drop_table True ''users'' True # sts) c
     = run sts (after_drops c)"
  using wf_catalog_drop [of c "''sessions''"]
  by (simp add: exec_drop_if_exists after_drops_def del: exec_ddl.simps)


lemma setupTables_split:
  "setupTables_sql =
     Drop_table True ''sessions'' True # Drop_table True ''users'' True # creates"
  by (simp add: setupTables_sql_def creates_def)

lemma tables_after_drops:
  "tables (after_drops c) ''users'' = None" "tables (after_drops c) ''sessions'' = None"
  by (simp_all add: after_drops_def)

lemma run_creates:
  assumes "tables k ''users'' = None" and "tables k ''sessions'' = None"
    and "run creates k = Inr c1"
  shows "c1 = created_on k \<and> indexes k ''idx_users_google_id'' = None
         \<and> indexes k ''idx_users_email'' = None \<and> indexes k ''idx_sessions_user_id'' = None"
  using assms
  by (simp add: creates_def created_on_def split: option.splits)

lemma run_creates_free:
  assumes "tables k ''users'' = None" and "tables k ''sessions'' = None"
    and "indexes k ''idx_users_google_id'' = None"
    and "indexes k ''idx_users_email'' = None" and "indexes k ''idx_sessions_user_id'' = None"
  shows "run creates k = Inr (created_on k)"
  using assms
  by (simp add: creates_def created_on_def)

lemma wf_catalog_after_drops: "wf_catalog c \<Longrightarrow> wf_catalog (after_drops c)"
  by (fastforce simp: wf_catalog_def after_drops_def drop_indexes_on_def split: option.splits if_splits)

lemma wf_catalog_created_on: "wf_catalog k \<Longrightarrow> wf_catalog (created_on k)"
  by (fastforce simp: wf_catalog_def created_on_def split: if_splits)

lemma indexes_after_drops_eq:
  "indexes (after_drops x) i =
     (case indexes x i of
        None \<Rightarrow> None
      | Some e \<Rightarrow> if fst e = ''users'' \<or> fst e = ''sessions'' then None else Some e)"
  by (simp add: after_drops_def drop_indexes_on_def split: option.splits)

lemma tables_after_drops_eq:
  "tables (after_drops x) = (tables x)(''sessions'' := None, ''users'' := None)"
  by (simp add: after_drops_def)

lemma indexes_created_on:
  "indexes (created_on k) =
     (indexes k)(''idx_users_google_id'' \<mapsto> (''users'', [''google_id'']),
                 ''idx_users_email'' \<mapsto> (''users'', [''email'']),
                 ''idx_sessions_user_id'' \<mapsto> (''sessions'', [''user_id'']))"
  by (simp add: created_on_def)

lemma tables_created_on:
  "tables (created_on k) =
     (tables k)(''users'' \<mapsto> (users_columns, 0), ''sessions'' \<mapsto> (sessions_columns, 0))"
  by (simp add: created_on_def)

lemma catalog_eqI: "tables a = tables b \<Longrightarrow> indexes a = indexes b \<Longrightarrow> a = (b::catalog)"
  by simp

lemma after_drops_created_on:
  assumes "indexes (after_drops c) ''idx_users_google_id'' = None"
    and "indexes (after_drops c) ''idx_users_email'' = None"
    and "indexes (after_drops c) ''idx_sessions_user_id'' = None"
  shows "after_drops (created_on (after_drops c)) = after_drops c"
proof (rule catalog_eqI)
  let ?k = "after_drops c"
  show "tables (after_drops (created_on ?k)) = tables ?k"
    by (rule ext) (simp add: tables_after_drops_eq tables_created_on)
  show "indexes (after_drops (created_on ?k)) = indexes ?k"
  proof (rule ext)
    fix i
    show "indexes (after_drops (created_on ?k)) i = indexes ?k i"
    proof (cases "indexes ?k i")
      case None
      then show ?thesis
        by (simp add: indexes_after_drops_eq [of "created_on ?k"] indexes_created_on)
    next
      case (Some e)
      with assms have "i \<noteq> ''idx_users_google_id''" "i \<noteq> ''idx_users_email''"
        "i \<noteq> ''idx_sessions_user_id''" by auto
      moreover from Some have "fst e \<noteq> ''users'' \<and> fst e \<noteq> ''sessions''"
        by (simp add: indexes_after_drops_eq [of c] split: option.splits if_splits)
      ultimately show ?thesis using Some
        by (simp add: indexes_after_drops_eq [of "created_on ?k"] indexes_created_on)
    qed
  qed
qed

lemma setupTables_again:
  assumes wf: "wf_catalog c" and r: "run setupTables_sql c = Inr c1"
  shows "run setupTables_sql c1 = Inr c1"
proof -
  let ?k = "after_drops c"
  from r have rc: "run creates ?k = Inr c1"
    unfolding setupTables_split run_drops [OF wf] .
  from run_creates [OF tables_after_drops rc]
  have c1: "c1 = created_on ?k" and free: "indexes ?k ''idx_users_google_id'' = None"
    "indexes ?k ''idx_users_email'' = None" "indexes ?k ''idx_sessions_user_id'' = None"
    by simp_all
  have "wf_catalog c1"
    using wf c1 by (simp add: wf_catalog_after_drops wf_catalog_created_on)
  then have "run setupTables_sql c1 = run creates (after_drops c1)"
    unfolding setupTables_split by (rule run_drops)
  also have "after_drops c1 = ?k"
    using free c1 by (simp add: after_drops_created_on)
  finally show ?thesis using rc by simp
qed

lemma run_createTables_empty:
  "\<exists>c1. run createTables_sql empty_catalog = Inr c1"
  by (simp add: createTables_sql_def empty_catalog_def)

lemma run_addOAuthTokenColumns_populated:
  "\<exists>c1. run addOAuthTokenColumns_sql populated_catalog = Inr c1"
  by (simp add: addOAuthTokenColumns_sql_def populated_catalog_def users_columns_def)

lemma run_setupTables_populated:
  "\<exists>c1. run setupTables_sql populated_catalog = Inr c1"
  by (simp add: setupTables_sql_def populated_catalog_def drop_indexes_on_def)

lemma wf_populated_catalog: "wf_catalog populated_catalog"
  by (simp add: wf_catalog_def populated_catalog_def split: if_splits)

text \<open>
  C4 (amended). Each provisioning script, run a second time on the catalog its successful
  first run left, produces no error and leaves that catalog as it is: no table, column or
  index is added twice. In \<^verbatim>\<open>create-tables.js\<close> and in the add-columns script every
  statement carries an \<^verbatim>\<open>IF NOT EXISTS\<close> guard. \<^verbatim>\<open>setup-supabase-tables.js\<close> guards only
  its two \<^verbatim>\<open>DROP TABLE\<close> statements: it drops both tables and then creates them and their
  indexes without a guard.
\<close>

theorem provisioning_rerun:
  "list_all guarded createTables_sql \<and> list_all guarded addOAuthTokenColumns_sql \<and>
   (run createTables_sql c = Inr c1 \<longrightarrow> run createTables_sql c1 = Inr c1) \<and>
   (run addOAuthTokenColumns_sql c = Inr c1 \<longrightarrow> run addOAuthTokenColumns_sql c1 = Inr c1) \<and>
   (wf_catalog c \<and> run setupTables_sql c = Inr c1 \<longrightarrow> run setupTables_sql c1 = Inr c1)"
proof (intro conjI impI)
  show "list_all guarded createTables_sql"
    by (simp add: createTables_sql_def)
  show "list_all guarded addOAuthTokenColumns_sql"
    by (simp add: addOAuthTokenColumns_sql_def)
  show "run createTables_sql c1 = Inr c1" if "run createTables_sql c = Inr c1"
    using that by (rule createTables_again)
  show "run addOAuthTokenColumns_sql c1 = Inr c1" if "run addOAuthTokenColumns_sql c = Inr c1"
    using that by (rule addOAuthTokenColumns_again)
  show "run setupTables_sql c1 = Inr c1" if "wf_catalog c \<and> run setupTables_sql c = Inr c1"
    using that by (blast intro: setupTables_again)
qed

theorem provisioning_rerun_witness:
  "(\<exists>c1. run createTables_sql empty_catalog = Inr c1 \<and> run createTables_sql c1 = Inr c1) \<and>
   (\<exists>c1. run addOAuthTokenColumns_sql populated_catalog = Inr c1
        \<and> run addOAuthTokenColumns_sql c1 = Inr c1) \<and>
   wf_catalog populated_catalog \<and>
   (\<exists>c1. run setupTables_sql populated_catalog = Inr c1 \<and> run setupTables_sql c1 = Inr c1)"
proof -
  obtain k1 where k1: "run createTables_sql empty_catalog = Inr k1"
    using run_createTables_empty by blast
  obtain k2 where k2: "run addOAuthTokenColumns_sql populated_catalog = Inr k2"
    using run_addOAuthTokenColumns_populated by blast
  obtain k3 where k3: "run setupTables_sql populated_catalog = Inr k3"
    using run_setupTables_populated by blast
  from k1 k2 k3 wf_populated_catalog show ?thesis
    using provisioning_rerun [of empty_catalog k1] provisioning_rerun [of populated_catalog k2]
      provisioning_rerun [of populated_catalog k3]
    by blast
qed

text \<open>
  C4 as stated fails on \<^verbatim>\<open>setup-supabase-tables.js\<close>: its \<^verbatim>\<open>CREATE TABLE users\<close> carries no
  guard, and running the script on a catalog whose \<^verbatim>\<open>users\<close> table holds five rows is not
  a no-op: the table is dropped and recreated empty.
\<close>

theorem setupTables_unguarded_counterexample:
  "Create_table False ''users'' users_columns \<in> set setupTables_sql \<and>
   \<not> guarded (Create_table False ''users'' users_columns) \<and>
   row_count populated_catalog ''users'' = Some 5 \<and>
   (case run setupTables_sql populated_catalog of
      Inl e \<Rightarrow> False
    | Inr c \<Rightarrow> row_count c ''users'' = Some 0)"
  by (simp add: setupTables_sql_def populated_catalog_def row_count_def drop_indexes_on_def)

end
